theory Spec2Isabelle
  imports Main "HOL-Library.Word" "HOL-Library.AList" "HOL-Library.Sublist"
begin

section \<open>Python values shared by both modules\<close>

type_synonym byte = "8 word"
type_synonym bytes = "byte list"

text \<open>
  The interpreter line matters in one place only: \<^verbatim>\<open>e.message\<close> on a built-in exception.
  Python 2 gives every \<^verbatim>\<open>BaseException\<close> a \<^verbatim>\<open>message\<close> attribute, Python 3 does not, and
  the attribute access itself raises \<^verbatim>\<open>AttributeError\<close>. The package supports both lines.
\<close>

datatype py_version = Py2 | Py3

text \<open>
  Exceptions as values. \<^verbatim>\<open>SerializerError\<close> keeps the argument of its constructor as
  \<^verbatim>\<open>message\<close>; the argument is a string in some places of the source and the caught
  exception object in others. \<^verbatim>\<open>KeySerializerError\<close> and \<^verbatim>\<open>ValueSerializerError\<close> are
  the field-attributed subclasses of \<^verbatim>\<open>SerializerError\<close>.
\<close>

datatype py_exc =
    StructError string
  | UnicodeDecodeError string nat
  | UnicodeEncodeError string nat
  | OverflowError string
  | AttributeError string
  | ValueError string
  | TransportError string
  | SerializerError py_msg
  | KeySerializerError py_msg
  | ValueSerializerError py_msg
and py_msg =
    MsgStr string
  | MsgExc py_exc

text \<open>\<^verbatim>\<open>except SerializerError as e\<close> followed by \<^verbatim>\<open>e.message\<close>: the clause matches the class
  and its subclasses and nothing else.\<close>

fun caught_SerializerError :: "py_exc \<Rightarrow> py_msg option" where
  "caught_SerializerError (SerializerError m) = Some m"
| "caught_SerializerError (KeySerializerError m) = Some m"
| "caught_SerializerError (ValueSerializerError m) = Some m"
| "caught_SerializerError _ = None"

datatype MessageField = KEY | VALUE

record SerializationContext =
  topic :: string
  field :: MessageField

section \<open>The struct module, as far as the serializers use it\<close>

text \<open>
  The three integer formats in big-endian standard size: \<^verbatim>\<open>'>h'\<close>, \<^verbatim>\<open>'>i'\<close>, \<^verbatim>\<open>'>q'\<close>.
\<close>

datatype int_format = Fmt_h | Fmt_i | Fmt_q

fun calcsize :: "int_format \<Rightarrow> nat" where
  "calcsize Fmt_h = 2"
| "calcsize Fmt_i = 4"
| "calcsize Fmt_q = 8"

text \<open>The \<open>n\<close> low-order bytes of a number, most significant first.\<close>

fun be_bytes :: "nat \<Rightarrow> int \<Rightarrow> bytes" where
  "be_bytes 0 v = []"
| "be_bytes (Suc n) v = be_bytes n (v div 256) @ [word_of_int v]"

text \<open>The unsigned number a byte string spells, most significant byte first.\<close>

definition be_uint :: "bytes \<Rightarrow> int" where
  "be_uint bs = foldl (\<lambda>acc b. acc * 256 + uint b) 0 bs"

text \<open>Two's complement reading of an unsigned \<open>8 * n\<close>-bit number.\<close>

definition to_signed :: "nat \<Rightarrow> int \<Rightarrow> int" where
  "to_signed n u = (if u < 2 ^ (8 * n - 1) then u else u - 2 ^ (8 * n))"

text \<open>
  \<^verbatim>\<open>struct.pack(fmt, v)\<close> for a Python int: the value must fit the signed width, else
  \<^verbatim>\<open>struct.error\<close>. The message text of the error is not the library's word for word.
\<close>

definition struct_pack :: "int_format \<Rightarrow> int \<Rightarrow> py_exc + bytes" where
  "struct_pack fmt v =
     (let n = calcsize fmt in
      if - (2 ^ (8 * n - 1)) \<le> v \<and> v < 2 ^ (8 * n - 1)
      then Inr (be_bytes n (v mod 2 ^ (8 * n)))
      else Inl (StructError ''argument out of range''))"

text \<open>
  \<^verbatim>\<open>struct.unpack(fmt, data)[0]\<close>: the buffer must have exactly the size of the format,
  else \<^verbatim>\<open>struct.error\<close>.
\<close>

definition struct_unpack :: "int_format \<Rightarrow> bytes \<Rightarrow> py_exc + int" where
  "struct_unpack fmt data =
     (let n = calcsize fmt in
      if length data = n then Inr (to_signed n (be_uint data))
      else Inl (StructError ''unpack requires a buffer of the size of the format''))"

text \<open>
  A Python float is an IEEE 754 binary64 value, kept here as its 64 bits. \<^verbatim>\<open>'>d'\<close> writes
  the bits as they are. \<^verbatim>\<open>'>f'\<close> first narrows to binary32; the narrowing is the C cast of
  the platform and is a parameter \<open>narrow\<close> of the model, \<open>None\<close> where a finite double is
  too large for a single, which Python reports as \<^verbatim>\<open>OverflowError\<close>. The widening back,
  \<open>widen\<close>, is a parameter as well.
\<close>

type_synonym py_float = "64 word"

definition struct_pack_d :: "py_float \<Rightarrow> py_exc + bytes" where
  "struct_pack_d x = Inr (be_bytes 8 (uint x))"

definition struct_unpack_d :: "bytes \<Rightarrow> py_exc + py_float" where
  "struct_unpack_d data =
     (if length data = 8 then Inr (word_of_int (be_uint data))
      else Inl (StructError ''unpack requires a buffer of 8 bytes''))"

definition struct_pack_f :: "(py_float \<Rightarrow> 32 word option) \<Rightarrow> py_float \<Rightarrow> py_exc + bytes" where
  "struct_pack_f narrow x =
     (case narrow x of
        None \<Rightarrow> Inl (OverflowError ''float too large to pack with f format'')
      | Some s \<Rightarrow> Inr (be_bytes 4 (uint s)))"

definition struct_unpack_f :: "(32 word \<Rightarrow> py_float) \<Rightarrow> bytes \<Rightarrow> py_exc + py_float" where
  "struct_unpack_f widen data =
     (if length data = 4 then Inr (widen (word_of_int (be_uint data)))
      else Inl (StructError ''unpack requires a buffer of 4 bytes''))"

text \<open>
  The two shapes of handler in serializers.py. \<^verbatim>\<open>raise SerializerError(e)\<close> wraps the caught
  \<^verbatim>\<open>struct.error\<close> object. \<^verbatim>\<open>raise SerializerError(e.message)\<close> reads the attribute first:
  the string on Python 2, an \<^verbatim>\<open>AttributeError\<close> on Python 3. Each handler is an
  \<^verbatim>\<open>except struct.error\<close> clause, so every other exception passes through untouched.
\<close>

fun handler_wrap :: "py_exc \<Rightarrow> py_exc" where
  "handler_wrap (StructError m) = SerializerError (MsgExc (StructError m))"
| "handler_wrap e = e"

fun handler_message :: "py_version \<Rightarrow> py_exc \<Rightarrow> py_exc" where
  "handler_message Py2 (StructError m) = SerializerError (MsgStr m)"
| "handler_message Py3 (StructError m) =
     AttributeError ''error object has no attribute message''"
| "handler_message ver e = e"

section \<open>Text codecs\<close>

text \<open>
  A Python \<^verbatim>\<open>str\<close> is a sequence of code points. \<^verbatim>\<open>datum.encode(codec)\<close> and
  \<^verbatim>\<open>data.decode(codec)\<close> look the codec up by name; the model passes the codec itself, a
  pair of functions. The default of \<^verbatim>\<open>StringSerializer\<close> is \<^verbatim>\<open>'utf_8'\<close>, modelled below
  with the strictness of Python 3 (no overlong forms, no surrogates, nothing above
  U+10FFFF).
\<close>

type_synonym py_str = "nat list"

record text_codec =
  encode :: "py_str \<Rightarrow> py_exc + bytes"
  decode :: "bytes \<Rightarrow> py_exc + py_str"

definition is_cont :: "byte \<Rightarrow> bool" where
  "is_cont b = (0x80 \<le> b \<and> b \<le> 0xBF)"

text \<open>Length of the well-formed sequence that starts with \<open>b0\<close> and goes on with \<open>bs\<close>;
  0 when there is none.\<close>

definition utf8_seq_len :: "byte \<Rightarrow> bytes \<Rightarrow> nat" where
  "utf8_seq_len b0 bs =
     (if b0 < 0x80 then 1
      else if 0xC2 \<le> b0 \<and> b0 \<le> 0xDF then
        (case bs of b1 # _ \<Rightarrow> if is_cont b1 then 2 else 0 | _ \<Rightarrow> 0)
      else if 0xE0 \<le> b0 \<and> b0 \<le> 0xEF then
        (case bs of b1 # b2 # _ \<Rightarrow>
           if is_cont b1 \<and> is_cont b2 \<and> (if b0 = 0xE0 then 0xA0 \<le> b1 else True) \<and>
              (if b0 = 0xED then b1 \<le> 0x9F else True)
           then 3 else 0
         | _ \<Rightarrow> 0)
      else if 0xF0 \<le> b0 \<and> b0 \<le> 0xF4 then
        (case bs of b1 # b2 # b3 # _ \<Rightarrow>
           if is_cont b1 \<and> is_cont b2 \<and> is_cont b3 \<and> (if b0 = 0xF0 then 0x90 \<le> b1 else True) \<and>
              (if b0 = 0xF4 then b1 \<le> 0x8F else True)
           then 4 else 0
         | _ \<Rightarrow> 0)
      else 0)"

text \<open>The code point of a well-formed sequence: the payload bits of the lead byte, then six
  bits of each continuation byte.\<close>

definition utf8_code_point :: "byte \<Rightarrow> bytes \<Rightarrow> nat" where
  "utf8_code_point b0 conts =
     foldl (\<lambda>acc b. acc * 64 + unat b mod 64)
       (if b0 < 0x80 then unat b0
        else if b0 < 0xE0 then unat b0 mod 32
        else if b0 < 0xF0 then unat b0 mod 16
        else unat b0 mod 8)
       conts"

fun utf8_decode_from :: "nat \<Rightarrow> bytes \<Rightarrow> py_exc + py_str" where
  "utf8_decode_from pos [] = Inr []"
| "utf8_decode_from pos (b0 # bs) =
     (let n = utf8_seq_len b0 bs in
      if n = 0 then Inl (UnicodeDecodeError ''utf-8'' pos)
      else (case utf8_decode_from (pos + n) (drop (n - 1) bs) of
              Inl e \<Rightarrow> Inl e
            | Inr cps \<Rightarrow> Inr (utf8_code_point b0 (take (n - 1) bs) # cps)))"

definition utf8_encode_cp :: "nat \<Rightarrow> bytes option" where
  "utf8_encode_cp c =
     (if c < 0x80 then Some [of_nat c]
      else if c < 0x800 then Some [of_nat (0xC0 + c div 64), of_nat (0x80 + c mod 64)]
      else if 0xD800 \<le> c \<and> c \<le> 0xDFFF then None
      else if c < 0x10000 then
        Some [of_nat (0xE0 + c div 4096), of_nat (0x80 + c div 64 mod 64), of_nat (0x80 + c mod 64)]
      else if c \<le> 0x10FFFF then
        Some [of_nat (0xF0 + c div 262144), of_nat (0x80 + c div 4096 mod 64),
              of_nat (0x80 + c div 64 mod 64), of_nat (0x80 + c mod 64)]
      else None)"

fun utf8_encode_from :: "nat \<Rightarrow> py_str \<Rightarrow> py_exc + bytes" where
  "utf8_encode_from pos [] = Inr []"
| "utf8_encode_from pos (c # cs) =
     (case utf8_encode_cp c of
        None \<Rightarrow> Inl (UnicodeEncodeError ''utf-8'' pos)
      | Some bs \<Rightarrow>
          (case utf8_encode_from (pos + 1) cs of
             Inl e \<Rightarrow> Inl e
           | Inr rest \<Rightarrow> Inr (bs @ rest)))"

definition utf_8 :: text_codec where
  "utf_8 = \<lparr> encode = utf8_encode_from 0, decode = utf8_decode_from 0 \<rparr>"

section \<open>serializers.py\<close>

text \<open>
  Every method takes the datum (\<open>None\<close> for Python's \<^verbatim>\<open>None\<close>) and the serialization
  context, and either returns or raises: \<open>Inr\<close> the returned value, \<open>Inl\<close> the exception
  that leaves the method. The classes keep no state but the codec of \<^verbatim>\<open>StringSerializer\<close>.
\<close>

definition DoubleSerializer_serialize ::
  "py_float option \<Rightarrow> SerializationContext \<Rightarrow> py_exc + bytes option" where
  "DoubleSerializer_serialize datum ctx =
     (case datum of
        None \<Rightarrow> Inr None
      | Some x \<Rightarrow> (case struct_pack_d x of Inr b \<Rightarrow> Inr (Some b) | Inl e \<Rightarrow> Inl (handler_wrap e)))"

definition DoubleSerializer_deserialize ::
  "bytes option \<Rightarrow> SerializationContext \<Rightarrow> py_exc + py_float option" where
  "DoubleSerializer_deserialize data ctx =
     (case data of
        None \<Rightarrow> Inr None
      | Some d \<Rightarrow> (case struct_unpack_d d of Inr x \<Rightarrow> Inr (Some x) | Inl e \<Rightarrow> Inl (handler_wrap e)))"

definition FloatSerializer_serialize ::
  "(py_float \<Rightarrow> 32 word option) \<Rightarrow> py_float option \<Rightarrow> SerializationContext \<Rightarrow> py_exc + bytes option" where
  "FloatSerializer_serialize narrow datum ctx =
     (case datum of
        None \<Rightarrow> Inr None
      | Some x \<Rightarrow> (case struct_pack_f narrow x of Inr b \<Rightarrow> Inr (Some b) | Inl e \<Rightarrow> Inl (handler_wrap e)))"

definition FloatSerializer_deserialize ::
  "(32 word \<Rightarrow> py_float) \<Rightarrow> bytes option \<Rightarrow> SerializationContext \<Rightarrow> py_exc + py_float option" where
  "FloatSerializer_deserialize widen data ctx =
     (case data of
        None \<Rightarrow> Inr None
      | Some d \<Rightarrow> (case struct_unpack_f widen d of Inr x \<Rightarrow> Inr (Some x) | Inl e \<Rightarrow> Inl (handler_wrap e)))"

definition LongSerializer_serialize ::
  "int option \<Rightarrow> SerializationContext \<Rightarrow> py_exc + bytes option" where
  "LongSerializer_serialize datum ctx =
     (case datum of
        None \<Rightarrow> Inr None
      | Some v \<Rightarrow> (case struct_pack Fmt_q v of Inr b \<Rightarrow> Inr (Some b) | Inl e \<Rightarrow> Inl (handler_wrap e)))"

definition LongSerializer_deserialize ::
  "bytes option \<Rightarrow> SerializationContext \<Rightarrow> py_exc + int option" where
  "LongSerializer_deserialize data ctx =
     (case data of
        None \<Rightarrow> Inr None
      | Some d \<Rightarrow> (case struct_unpack Fmt_q d of Inr v \<Rightarrow> Inr (Some v) | Inl e \<Rightarrow> Inl (handler_wrap e)))"

definition IntegerSerializer_serialize ::
  "py_version \<Rightarrow> int option \<Rightarrow> SerializationContext \<Rightarrow> py_exc + bytes option" where
  "IntegerSerializer_serialize ver datum ctx =
     (case datum of
        None \<Rightarrow> Inr None
      | Some v \<Rightarrow>
          (case struct_pack Fmt_i v of Inr b \<Rightarrow> Inr (Some b) | Inl e \<Rightarrow> Inl (handler_message ver e)))"

definition IntegerSerializer_deserialize ::
  "py_version \<Rightarrow> bytes option \<Rightarrow> SerializationContext \<Rightarrow> py_exc + int option" where
  "IntegerSerializer_deserialize ver data ctx =
     (case data of
        None \<Rightarrow> Inr None
      | Some d \<Rightarrow>
          (case struct_unpack Fmt_i d of Inr v \<Rightarrow> Inr (Some v) | Inl e \<Rightarrow> Inl (handler_message ver e)))"

definition ShortSerializer_serialize ::
  "py_version \<Rightarrow> int option \<Rightarrow> SerializationContext \<Rightarrow> py_exc + bytes option" where
  "ShortSerializer_serialize ver datum ctx =
     (case datum of
        None \<Rightarrow> Inr None
      | Some v \<Rightarrow>
          (case struct_pack Fmt_h v of Inr b \<Rightarrow> Inr (Some b) | Inl e \<Rightarrow> Inl (handler_message ver e)))"

definition ShortSerializer_deserialize ::
  "bytes option \<Rightarrow> SerializationContext \<Rightarrow> py_exc + int option" where
  "ShortSerializer_deserialize data ctx =
     (case data of
        None \<Rightarrow> Inr None
      | Some d \<Rightarrow> (case struct_unpack Fmt_h d of Inr v \<Rightarrow> Inr (Some v) | Inl e \<Rightarrow> Inl (handler_wrap e)))"

text \<open>\<^verbatim>\<open>StringSerializer\<close>: the handlers are \<^verbatim>\<open>except struct.error\<close> clauses here too, around
  calls that raise \<^verbatim>\<open>UnicodeEncodeError\<close> and \<^verbatim>\<open>UnicodeDecodeError\<close>.\<close>

definition StringSerializer_serialize ::
  "py_version \<Rightarrow> text_codec \<Rightarrow> py_str option \<Rightarrow> SerializationContext \<Rightarrow> py_exc + bytes option" where
  "StringSerializer_serialize ver codec datum ctx =
     (case datum of
        None \<Rightarrow> Inr None
      | Some s \<Rightarrow>
          (case encode codec s of Inr b \<Rightarrow> Inr (Some b) | Inl e \<Rightarrow> Inl (handler_message ver e)))"

definition StringSerializer_deserialize ::
  "py_version \<Rightarrow> text_codec \<Rightarrow> bytes option \<Rightarrow> SerializationContext \<Rightarrow> py_exc + py_str option" where
  "StringSerializer_deserialize ver codec data ctx =
     (case data of
        None \<Rightarrow> Inr None
      | Some d \<Rightarrow>
          (case decode codec d of Inr s \<Rightarrow> Inr (Some s) | Inl e \<Rightarrow> Inl (handler_message ver e)))"

section \<open>Configuration dictionaries\<close>

text \<open>
  The values a configuration dict holds: \<^verbatim>\<open>None\<close>, strings, numbers, booleans and opaque
  objects such as callbacks (told apart by identity).
\<close>

datatype conf_value = VNone | VStr string | VInt int | VBool bool | VObj nat

text \<open>A dict is its list of items in insertion order; the keys of a dict are distinct.\<close>

type_synonym py_dict = "(string \<times> conf_value) list"

definition dict_get :: "py_dict \<Rightarrow> string \<Rightarrow> conf_value \<Rightarrow> conf_value" where
  "dict_get d k dflt = (case map_of d k of None \<Rightarrow> dflt | Some v \<Rightarrow> v)"

text \<open>\<^verbatim>\<open>d[k] = v\<close>: an existing key keeps its place, a new key goes last.\<close>

definition dict_setitem :: "py_dict \<Rightarrow> string \<Rightarrow> conf_value \<Rightarrow> py_dict" where
  "dict_setitem d k v = AList.update k v d"

text \<open>A dict comprehension stores its items one after the other, so of two items with the
  same key the later one stays.\<close>

definition dict_of_items :: "(string \<times> conf_value) list \<Rightarrow> py_dict" where
  "dict_of_items kvs = foldl (\<lambda>d (k, v). dict_setitem d k v) [] kvs"

definition startswith :: "string \<Rightarrow> string \<Rightarrow> bool" where
  "startswith s p = prefix p s"

text \<open>\<^verbatim>\<open>s.replace(old, new)\<close>: every occurrence of \<open>old\<close>, found from the left and not
  overlapping, becomes \<open>new\<close>.\<close>

function str_replace :: "string \<Rightarrow> string \<Rightarrow> string \<Rightarrow> string" where
  "str_replace [] old new = (if old = [] then new else [])"
| "str_replace (c # cs) old new =
     (if old = [] then new @ c # str_replace cs old new
      else if prefix old (c # cs) then new @ str_replace (drop (length old) (c # cs)) old new
      else c # str_replace cs old new)"
  by pat_completeness auto
termination
  by (relation "measure (\<lambda>(s, old, new). length s)") auto

text \<open>
  Lines 104--110 of \<^verbatim>\<open>AvroConsumer.__init__\<close> and lines 173--179 of
  \<^verbatim>\<open>AvroProducer.__init__\<close> are the same statements: the comprehension that builds
  \<^verbatim>\<open>sr_conf\<close> and the \<^verbatim>\<open>SASL_INHERIT\<close> block.
\<close>

definition schema_registry_conf :: "py_dict \<Rightarrow> py_dict" where
  "schema_registry_conf config =
     (let sr_conf = dict_of_items
            (map (\<lambda>(key, val). (str_replace key ''schema.registry.'' '''', val))
               (filter (\<lambda>(key, val). startswith key ''schema.registry'') config))
      in if dict_get sr_conf ''basic.auth.credentials.source'' VNone = VStr ''SASL_INHERIT''
         then
           (let sr1 = dict_setitem sr_conf ''sasl.mechanisms'' (dict_get config ''sasl.mechanisms'' (VStr ''''));
                sr2 = dict_setitem sr1 ''sasl.username'' (dict_get config ''sasl.username'' (VStr ''''));
                sr3 = dict_setitem sr2 ''sasl.password'' (dict_get config ''sasl.password'' (VStr ''''))
            in sr3)
         else sr_conf)"

text \<open>Lines 112--113 and 181--182: \<^verbatim>\<open>ap_conf\<close>.\<close>

definition transport_conf :: "py_dict \<Rightarrow> py_dict" where
  "transport_conf config =
     dict_of_items (filter (\<lambda>(key, val). \<not> startswith key ''schema.registry'') config)"

section \<open>avro/__init__.py\<close>

text \<open>
  An \<^verbatim>\<open>AvroSerializer\<close> instance, with the attributes the module reads: \<^verbatim>\<open>self.schema\<close>,
  \<^verbatim>\<open>self.converter\<close> and the registry client and reader schema it is constructed with. The
  class itself lives in serialization/avro.py, which is not among the sources. Of the
  converter the module calls \<^verbatim>\<open>to_dict\<close>; \<open>from_dict\<close> stands for the conversion back that
  the spec gives the read path.
\<close>

record 'd Converter =
  to_dict :: "'d \<Rightarrow> py_exc + 'd"
  from_dict :: "'d \<Rightarrow> py_exc + 'd"

record ('r, 's, 'd) AvroSerializer =
  registry_client :: 'r
  schema :: "'s option"
  reader_schema :: "'s option"
  converter :: "'d Converter option"

text \<open>
  Modelled from the spec: the constructor of \<^verbatim>\<open>AvroSerializer\<close> (serialization/avro.py is
  not among the sources). The spec binds an instance at construction to a registry client
  and an optional default schema, for the read path an optional reader schema; the
  conversion hook is pluggable, so an instance built without one has none. The module calls
  it as \<^verbatim>\<open>AvroSerializer(registry, schema=..)\<close> and \<^verbatim>\<open>AvroSerializer(registry, reader_schema=..)\<close>.
\<close>

definition AvroSerializer_init ::
  "'r \<Rightarrow> 's option \<Rightarrow> 's option \<Rightarrow> ('r, 's, 'd) AvroSerializer" where
  "AvroSerializer_init registry sch reader =
     \<lparr> registry_client = registry, schema = sch, reader_schema = reader, converter = None \<rparr>"

text \<open>
  Effects. A method runs on a state of two parts: \<open>ext\<close>, everything outside the module
  (the registry, its cache, the broker), which only the collaborators change; and \<open>trace\<close>,
  the calls that left the methods below, in the order they were made.
\<close>

datatype ('s, 'd) call =
    Call_serialize MessageField "'s option" "'d option"
  | Call_to_dict 'd
  | Call_encode "'s option" 'd SerializationContext
  | Call_produce string "bytes option" "bytes option"
  | Call_poll
  | Call_deserialize MessageField "'d option"

text \<open>The two kinds of call the ordering of \<^verbatim>\<open>produce\<close> is about.\<close>

fun is_value_serialization :: "('s, 'd) call \<Rightarrow> bool" where
  "is_value_serialization (Call_serialize VALUE sch d) = True"
| "is_value_serialization c = False"

fun is_transport_send :: "('s, 'd) call \<Rightarrow> bool" where
  "is_transport_send (Call_produce tpc v k) = True"
| "is_transport_send c = False"

record ('s, 'd, 'x) state =
  trace :: "('s, 'd) call list"
  ext :: 'x

definition logged :: "('s, 'd) call \<Rightarrow> ('s, 'd, 'x) state \<Rightarrow> ('s, 'd, 'x) state" where
  "logged c st = st\<lparr>trace := trace st @ [c]\<rparr>"

text \<open>
  \<^verbatim>\<open>_AvroProducerSerializer.serialize(self, schema, datum, ctx)\<close>. The inherited \<^verbatim>\<open>_encode\<close>
  is the parameter \<open>encode_method\<close>: it returns what it wrote to the buffer, or raises. A
  schema object is truthy, so \<^verbatim>\<open>not schema\<close> holds for \<^verbatim>\<open>None\<close> only; the same for the
  converter.
\<close>

definition AvroProducerSerializer_serialize ::
  "(('r, 's, 'd) AvroSerializer \<Rightarrow> 's option \<Rightarrow> 'd \<Rightarrow> SerializationContext \<Rightarrow> 'x \<Rightarrow> (py_exc + bytes) \<times> 'x) \<Rightarrow>
   ('r, 's, 'd) AvroSerializer \<Rightarrow> 's option \<Rightarrow> 'd option \<Rightarrow> SerializationContext \<Rightarrow>
   ('s, 'd, 'x) state \<Rightarrow> (py_exc + bytes option) \<times> ('s, 'd, 'x) state" where
  "AvroProducerSerializer_serialize encode_method self sch datum ctx st =
     (case datum of
        None \<Rightarrow> (Inr None, st)
      | Some d \<Rightarrow>
          (let sch1 = (case sch of None \<Rightarrow> schema self | Some s \<Rightarrow> Some s);
               (converted, st1) =
                 (case converter self of
                    None \<Rightarrow> (Inr d, st)
                  | Some c \<Rightarrow> (to_dict c d, logged (Call_to_dict d) st))
           in case converted of
                Inl e \<Rightarrow> (Inl e, st1)
              | Inr d1 \<Rightarrow>
                  (let (written, x) = encode_method self sch1 d1 ctx (ext st1);
                       st2 = (logged (Call_encode sch1 d1 ctx) st1)\<lparr>ext := x\<rparr>
                   in case written of
                        Inl e \<Rightarrow> (Inl e, st2)
                      | Inr b \<Rightarrow> (Inr (Some b), st2))))"

text \<open>\<^verbatim>\<open>AvroProducer\<close>: the two serializers; the transport client it extends is part of
  \<open>ext\<close>.\<close>

record ('r, 's, 'd, 't) AvroProducer =
  p_key_serializer :: "('r, 's, 'd) AvroSerializer"
  p_value_serializer :: "('r, 's, 'd) AvroSerializer"
  p_transport :: 't

record ('r, 's, 'd, 't) AvroConsumer =
  c_key_serializer :: "('r, 's, 'd) AvroSerializer"
  c_value_serializer :: "('r, 's, 'd) AvroSerializer"
  c_transport :: 't

text \<open>
  The constructors. \<open>new_client\<close> is \<^verbatim>\<open>CachedSchemaRegistryClient(sr_conf)\<close> and
  \<open>new_transport\<close> is the constructor of the transport client, \<^verbatim>\<open>super().__init__(ap_conf)\<close>;
  both are outside the module and both may raise.
\<close>

definition resolve_registry ::
  "(py_dict \<Rightarrow> py_exc + 'r) \<Rightarrow> py_dict \<Rightarrow> 'r option \<Rightarrow> py_exc + 'r" where
  "resolve_registry new_client sr_conf schema_registry =
     (case schema_registry of
        None \<Rightarrow> new_client sr_conf
      | Some r \<Rightarrow>
          if dict_get sr_conf ''url'' VNone \<noteq> VNone
          then Inl (ValueError ''Cannot pass schema_registry along with schema.registry.url config'')
          else Inr r)"

definition AvroConsumer_init ::
  "(py_dict \<Rightarrow> py_exc + 'r) \<Rightarrow> (py_dict \<Rightarrow> py_exc + 't) \<Rightarrow>
   py_dict \<Rightarrow> 'r option \<Rightarrow> 's option \<Rightarrow> 's option \<Rightarrow> py_exc + ('r, 's, 'd, 't) AvroConsumer" where
  "AvroConsumer_init new_client new_transport config schema_registry reader_key_schema reader_value_schema =
     (let sr_conf = schema_registry_conf config;
          ap_conf = transport_conf config
      in case resolve_registry new_client sr_conf schema_registry of
           Inl e \<Rightarrow> Inl e
         | Inr registry \<Rightarrow>
             (let ks = AvroSerializer_init registry None reader_key_schema;
                  vs = AvroSerializer_init registry None reader_value_schema
              in case new_transport ap_conf of
                   Inl e \<Rightarrow> Inl e
                 | Inr t \<Rightarrow> Inr \<lparr> c_key_serializer = ks, c_value_serializer = vs, c_transport = t \<rparr>))"

definition AvroProducer_init ::
  "(py_dict \<Rightarrow> py_exc + 'r) \<Rightarrow> (py_dict \<Rightarrow> py_exc + 't) \<Rightarrow>
   py_dict \<Rightarrow> 's option \<Rightarrow> 's option \<Rightarrow> 'r option \<Rightarrow> py_exc + ('r, 's, 'd, 't) AvroProducer" where
  "AvroProducer_init new_client new_transport config default_key_schema default_value_schema schema_registry =
     (let sr_conf = schema_registry_conf config;
          ap_conf = transport_conf config
      in case resolve_registry new_client sr_conf schema_registry of
           Inl e \<Rightarrow> Inl e
         | Inr registry \<Rightarrow>
             (let ks = AvroSerializer_init registry default_key_schema None;
                  vs = AvroSerializer_init registry default_value_schema None
              in case new_transport ap_conf of
                   Inl e \<Rightarrow> Inl e
                 | Inr t \<Rightarrow> Inr \<lparr> p_key_serializer = ks, p_value_serializer = vs, p_transport = t \<rparr>))"

text \<open>
  \<^verbatim>\<open>AvroProducer.produce(self, topic, **kwargs)\<close>. The four keywords the method pops, each
  \<^verbatim>\<open>None\<close> when absent, and the rest, which goes to the transport as it is.
  \<open>transport_produce\<close> is \<^verbatim>\<open>Producer.produce\<close>.
\<close>

record ('s, 'd, 'k) produce_kwargs =
  kw_key :: "'d option"
  kw_value :: "'d option"
  kw_key_schema :: "'s option"
  kw_value_schema :: "'s option"
  kw_rest :: 'k

definition AvroProducer_produce ::
  "(('r, 's, 'd) AvroSerializer \<Rightarrow> 's option \<Rightarrow> 'd \<Rightarrow> SerializationContext \<Rightarrow> 'x \<Rightarrow> (py_exc + bytes) \<times> 'x) \<Rightarrow>
   (string \<Rightarrow> bytes option \<Rightarrow> bytes option \<Rightarrow> 'k \<Rightarrow> 'x \<Rightarrow> (py_exc + unit) \<times> 'x) \<Rightarrow>
   ('r, 's, 'd, 't) AvroProducer \<Rightarrow> string \<Rightarrow> ('s, 'd, 'k) produce_kwargs \<Rightarrow>
   ('s, 'd, 'x) state \<Rightarrow> (py_exc + unit) \<times> ('s, 'd, 'x) state" where
  "AvroProducer_produce encode_method transport_produce self tpc kwargs st =
     (let key = kw_key kwargs;
          val = kw_value kwargs;
          key_schema = kw_key_schema kwargs;
          value_schema = kw_value_schema kwargs;
          ctx = \<lparr> topic = tpc, field = KEY \<rparr>;
          (key_result, st1) =
            AvroProducerSerializer_serialize encode_method (p_key_serializer self) key_schema key ctx
              (logged (Call_serialize KEY key_schema key) st)
      in case key_result of
           Inl e \<Rightarrow>
             (case caught_SerializerError e of
                Some m \<Rightarrow> (Inl (KeySerializerError m), st1)
              | None \<Rightarrow> (Inl e, st1))
         | Inr key1 \<Rightarrow>
             (let ctx1 = ctx\<lparr> field := VALUE \<rparr>;
                  (value_result, st2) =
                    AvroProducerSerializer_serialize encode_method (p_value_serializer self) value_schema val ctx1
                      (logged (Call_serialize VALUE value_schema val) st1)
              in case value_result of
                   Inl e \<Rightarrow>
                     (case caught_SerializerError e of
                        Some m \<Rightarrow> (Inl (ValueSerializerError m), st2)
                      | None \<Rightarrow> (Inl e, st2))
                 | Inr val1 \<Rightarrow>
                     (let (sent, x) = transport_produce tpc val1 key1 (kw_rest kwargs) (ext st2)
                      in (sent, (logged (Call_produce tpc val1 key1) st2)\<lparr>ext := x\<rparr>))))"

text \<open>
  A polled message. \<^verbatim>\<open>error()\<close> is \<^verbatim>\<open>None\<close> or a \<^verbatim>\<open>KafkaError\<close> object, which is truthy;
  \<^verbatim>\<open>topic()\<close>, \<^verbatim>\<open>partition()\<close> and \<^verbatim>\<open>offset()\<close> may each be \<^verbatim>\<open>None\<close>.
\<close>

record ('e, 'd) Message =
  msg_error :: "'e option"
  msg_value :: "'d option"
  msg_key :: "'d option"
  msg_topic :: "string option"
  msg_partition :: "int option"
  msg_offset :: "int option"

text \<open>\<^verbatim>\<open>'{}'.format(x)\<close> for the three kinds of argument the message gives.\<close>

definition digit_char :: "nat \<Rightarrow> char" where
  "digit_char d = ''0123456789'' ! d"

function str_nat :: "nat \<Rightarrow> string" where
  "str_nat n = (if n < 10 then [digit_char n] else str_nat (n div 10) @ [digit_char (n mod 10)])"
  by pat_completeness auto
termination
  by (relation "measure (\<lambda>n. n)") auto

definition str_int :: "int \<Rightarrow> string" where
  "str_int i = (if i < 0 then CHR ''-'' # str_nat (nat (- i)) else str_nat (nat i))"

definition format_str :: "string option \<Rightarrow> string" where
  "format_str s = (case s of None \<Rightarrow> ''None'' | Some t \<Rightarrow> t)"

definition format_int :: "int option \<Rightarrow> string" where
  "format_int i = (case i of None \<Rightarrow> ''None'' | Some n \<Rightarrow> str_int n)"

text \<open>The handler of \<^verbatim>\<open>poll\<close>; \<open>str_of\<close> is \<^verbatim>\<open>str(e)\<close> for the caught exception, defined by
  the exception's class.\<close>

definition poll_failure_message :: "(py_exc \<Rightarrow> string) \<Rightarrow> ('e, 'd) Message \<Rightarrow> py_exc \<Rightarrow> string" where
  "poll_failure_message str_of message e =
     ''Message deserialization failed for message at '' @ format_str (msg_topic message) @
     '' ['' @ format_int (msg_partition message) @ ''] offset '' @
     format_int (msg_offset message) @ '': '' @ str_of e"

definition poll_handler :: "(py_exc \<Rightarrow> string) \<Rightarrow> ('e, 'd) Message \<Rightarrow> py_exc \<Rightarrow> py_exc" where
  "poll_handler str_of message e =
     (case caught_SerializerError e of
        Some m \<Rightarrow> SerializerError (MsgStr (poll_failure_message str_of message e))
      | None \<Rightarrow> e)"

text \<open>
  \<^verbatim>\<open>AvroConsumer.poll(self, timeout)\<close>. \<open>transport_poll\<close> is \<^verbatim>\<open>Consumer.poll\<close>;
  \<open>deserialize_method\<close> is \<^verbatim>\<open>AvroSerializer.deserialize\<close>, called with \<^verbatim>\<open>None\<close> for the
  context.
\<close>

definition AvroConsumer_poll ::
  "(py_float \<Rightarrow> 'x \<Rightarrow> (py_exc + ('e, 'd) Message option) \<times> 'x) \<Rightarrow>
   (('r, 's, 'd) AvroSerializer \<Rightarrow> 'd option \<Rightarrow> SerializationContext option \<Rightarrow> 'x \<Rightarrow> (py_exc + 'd option) \<times> 'x) \<Rightarrow>
   (py_exc \<Rightarrow> string) \<Rightarrow>
   ('r, 's, 'd, 't) AvroConsumer \<Rightarrow> py_float \<Rightarrow>
   ('s, 'd, 'x) state \<Rightarrow> (py_exc + ('e, 'd) Message option) \<times> ('s, 'd, 'x) state" where
  "AvroConsumer_poll transport_poll deserialize_method str_of self timeout st =
     (let (polled, x1) = transport_poll timeout (ext st);
          st1 = (logged Call_poll st)\<lparr>ext := x1\<rparr>
      in case polled of
           Inl e \<Rightarrow> (Inl e, st1)
         | Inr None \<Rightarrow> (Inr None, st1)
         | Inr (Some message) \<Rightarrow>
             if msg_error message = None then
               (let (value_result, x2) =
                      deserialize_method (c_value_serializer self) (msg_value message) None (ext st1);
                    st2 = (logged (Call_deserialize VALUE (msg_value message)) st1)\<lparr>ext := x2\<rparr>
                in case value_result of
                     Inl e \<Rightarrow> (Inl (poll_handler str_of message e), st2)
                   | Inr v \<Rightarrow>
                       (let message1 = message\<lparr> msg_value := v \<rparr>;
                            (key_result, x3) =
                              deserialize_method (c_key_serializer self) (msg_key message1) None (ext st2);
                            st3 = (logged (Call_deserialize KEY (msg_key message1)) st2)\<lparr>ext := x3\<rparr>
                        in case key_result of
                             Inl e \<Rightarrow> (Inl (poll_handler str_of message1 e), st3)
                           | Inr k \<Rightarrow> (Inr (Some (message1\<lparr> msg_key := k \<rparr>)), st3)))
             else (Inr (Some message), st1))"

section \<open>The parts of AvroSerializer that the module inherits\<close>

text \<open>
  Modelled from the spec: the wire format of \<section>4.3 and \<section>6, which serialization/avro.py
  implements not among the sources. A frame is the magic byte 0, the schema id as a
  4-byte big-endian signed integer, and the body; anything shorter than 5 bytes, or with
  another first byte, is malformed.
\<close>

definition MAGIC_BYTE :: byte where
  "MAGIC_BYTE = 0"

definition frame :: "int \<Rightarrow> bytes \<Rightarrow> py_exc + bytes" where
  "frame schema_id body =
     (case struct_pack Fmt_i schema_id of
        Inl e \<Rightarrow> Inl e
      | Inr b \<Rightarrow> Inr (MAGIC_BYTE # b @ body))"

definition unframe :: "bytes \<Rightarrow> py_exc + int \<times> bytes" where
  "unframe payload =
     (if length payload < 5 \<or> hd payload \<noteq> MAGIC_BYTE
      then Inl (SerializerError (MsgStr ''malformed wire payload''))
      else (case struct_unpack Fmt_i (take 4 (tl payload)) of
              Inl e \<Rightarrow> Inl e
            | Inr schema_id \<Rightarrow> Inr (schema_id, drop 5 payload)))"

text \<open>
  Modelled from the spec: the configuration error of \<section>7, raised when neither a schema
  override nor a bound default schema is there at serialize time. The write path of \<section>4.5
  wraps it like every other serializer error, so it is one.
\<close>

definition SerializationConfigError :: py_exc where
  "SerializationConfigError = SerializerError (MsgStr ''no schema: neither an override nor a default'')"

text \<open>
  Modelled from the spec: the subject of \<section>4.4 step 4, derived from the stream name and the
  field of the context.
\<close>

definition subject_name :: "SerializationContext \<Rightarrow> string" where
  "subject_name ctx = topic ctx @ (case field ctx of KEY \<Rightarrow> ''-key'' | VALUE \<Rightarrow> ''-value'')"

text \<open>
  Modelled from the spec: \<^verbatim>\<open>AvroSerializer._encode\<close>, steps 2 and 4 to 6 of the serializer
  contract in \<section>4.4 (serialization/avro.py is not among the sources). With no schema it
  fails with the configuration error before any registry interaction; otherwise it registers
  the schema under the subject, encodes the datum against the same schema and frames the
  result. \<open>register\<close> is the registry client's \<^verbatim>\<open>register(subject, schema)\<close>,
  \<open>engine_encode\<close> the schema-encoding engine; a failure of either is wrapped into a
  serializer error that carries the cause.
\<close>

definition AvroSerializer_encode ::
  "('r \<Rightarrow> string \<Rightarrow> 's \<Rightarrow> 'x \<Rightarrow> (py_exc + int) \<times> 'x) \<Rightarrow> ('s \<Rightarrow> 'd \<Rightarrow> py_exc + bytes) \<Rightarrow>
   ('r, 's, 'd) AvroSerializer \<Rightarrow> 's option \<Rightarrow> 'd \<Rightarrow> SerializationContext \<Rightarrow> 'x \<Rightarrow> (py_exc + bytes) \<times> 'x" where
  "AvroSerializer_encode register engine_encode self sch datum ctx x =
     (case sch of
        None \<Rightarrow> (Inl SerializationConfigError, x)
      | Some s \<Rightarrow>
          (let (registered, x1) = register (registry_client self) (subject_name ctx) s x
           in case registered of
                Inl e \<Rightarrow> (Inl (SerializerError (MsgExc e)), x1)
              | Inr schema_id \<Rightarrow>
                  (case engine_encode s datum of
                     Inl e \<Rightarrow> (Inl (SerializerError (MsgExc e)), x1)
                   | Inr body \<Rightarrow>
                       (case frame schema_id body of
                          Inl e \<Rightarrow> (Inl (SerializerError (MsgExc e)), x1)
                        | Inr payload \<Rightarrow> (Inr payload, x1)))))"

text \<open>
  Modelled from the spec: \<^verbatim>\<open>AvroSerializer.deserialize\<close>, the deserializer contract of
  \<section>4.4, which \<^verbatim>\<open>_AvroProducerSerializer\<close> inherits unchanged. \<open>get_by_id\<close> is the registry
  client's lookup, \<open>engine_decode\<close> the schema-encoding engine with the optional reader
  schema.
\<close>

definition AvroSerializer_deserialize ::
  "('r \<Rightarrow> int \<Rightarrow> 'x \<Rightarrow> (py_exc + 's) \<times> 'x) \<Rightarrow> ('s \<Rightarrow> 's option \<Rightarrow> bytes \<Rightarrow> py_exc + 'd) \<Rightarrow>
   ('r, 's, 'd) AvroSerializer \<Rightarrow> bytes option \<Rightarrow> SerializationContext option \<Rightarrow> 'x \<Rightarrow> (py_exc + 'd option) \<times> 'x" where
  "AvroSerializer_deserialize get_by_id engine_decode self data ctx x =
     (case data of
        None \<Rightarrow> (Inr None, x)
      | Some payload \<Rightarrow>
          (case unframe payload of
             Inl e \<Rightarrow> (Inl e, x)
           | Inr (schema_id, body) \<Rightarrow>
               (let (resolved, x1) = get_by_id (registry_client self) schema_id x
                in case resolved of
                     Inl e \<Rightarrow> (Inl (SerializerError (MsgExc e)), x1)
                   | Inr writer_schema \<Rightarrow>
                       (case engine_decode writer_schema (reader_schema self) body of
                          Inl e \<Rightarrow> (Inl (SerializerError (MsgExc e)), x1)
                        | Inr record \<Rightarrow>
                            (case converter self of
                               None \<Rightarrow> (Inr (Some record), x1)
                             | Some c \<Rightarrow>
                                 (case from_dict c record of
                                    Inl e \<Rightarrow> (Inl e, x1)
                                  | Inr obj \<Rightarrow> (Inr (Some obj), x1)))))))"

section \<open>A small world to run the methods in\<close>

text \<open>
  Concrete collaborators for the examples that follow the theorems: schemas and data are
  numbers, the outside world counts the calls that reached it. The encoder rejects the
  datum 0 with a serializer error and writes any other datum as one byte; the transport
  accepts everything.
\<close>

definition demo_encode ::
  "(unit, nat, nat) AvroSerializer \<Rightarrow> nat option \<Rightarrow> nat \<Rightarrow> SerializationContext \<Rightarrow> nat \<Rightarrow> (py_exc + bytes) \<times> nat" where
  "demo_encode self sch d ctx x =
     (if d = 0 then (Inl (SerializerError (MsgStr ''bad datum'')), x) else (Inr [of_nat d], Suc x))"

definition demo_send :: "string \<Rightarrow> bytes option \<Rightarrow> bytes option \<Rightarrow> unit \<Rightarrow> nat \<Rightarrow> (py_exc + unit) \<times> nat" where
  "demo_send tpc v k rest x = (Inr (), x + 100)"

definition demo_producer :: "(unit, nat, nat, unit) AvroProducer" where
  "demo_producer =
     \<lparr> p_key_serializer = AvroSerializer_init () (Some 7) None,
       p_value_serializer = AvroSerializer_init () (Some 8) None,
       p_transport = () \<rparr>"

definition demo_kwargs :: "nat option \<Rightarrow> nat option \<Rightarrow> (nat, nat, unit) produce_kwargs" where
  "demo_kwargs k v =
     \<lparr> kw_key = k, kw_value = v, kw_key_schema = None, kw_value_schema = None, kw_rest = () \<rparr>"

definition demo_start :: "(nat, nat, nat) state" where
  "demo_start = \<lparr> trace = [], ext = 0 \<rparr>"

text \<open>For the read path: the transport hands out the message kept in the outside world, the
  deserializer rejects the payload 0 and adds 1000 to any other, and \<^verbatim>\<open>str(e)\<close> of a
  serializer error is its message.\<close>

record demo_broker =
  pending :: "(nat, nat) Message option"
  lookups :: nat

definition demo_poll :: "py_float \<Rightarrow> demo_broker \<Rightarrow> (py_exc + (nat, nat) Message option) \<times> demo_broker" where
  "demo_poll timeout x = (Inr (pending x), x\<lparr>pending := None\<rparr>)"

definition demo_deserialize ::
  "(unit, nat, nat) AvroSerializer \<Rightarrow> nat option \<Rightarrow> SerializationContext option \<Rightarrow> demo_broker \<Rightarrow>
   (py_exc + nat option) \<times> demo_broker" where
  "demo_deserialize self data ctx x =
     (case data of
        None \<Rightarrow> (Inr None, x)
      | Some d \<Rightarrow>
          if d = 0 then (Inl (SerializerError (MsgStr ''boom'')), x\<lparr>lookups := Suc (lookups x)\<rparr>)
          else (Inr (Some (d + 1000)), x\<lparr>lookups := Suc (lookups x)\<rparr>))"

definition demo_str :: "py_exc \<Rightarrow> string" where
  "demo_str e = (case caught_SerializerError e of Some (MsgStr s) \<Rightarrow> s | _ \<Rightarrow> ''error'')"

definition demo_consumer :: "(unit, nat, nat, unit) AvroConsumer" where
  "demo_consumer =
     \<lparr> c_key_serializer = AvroSerializer_init () None None,
       c_value_serializer = AvroSerializer_init () None None,
       c_transport = () \<rparr>"

definition demo_message :: "nat option \<Rightarrow> nat option \<Rightarrow> nat option \<Rightarrow> (nat, nat) Message" where
  "demo_message err v k =
     \<lparr> msg_error = err, msg_value = v, msg_key = k,
       msg_topic = Some ''orders'', msg_partition = Some 3, msg_offset = Some 42 \<rparr>"

definition demo_inbox :: "(nat, nat) Message \<Rightarrow> (nat, nat, demo_broker) state" where
  "demo_inbox m = \<lparr> trace = [], ext = \<lparr> pending = Some m, lookups = 0 \<rparr> \<rparr>"

text \<open>For the schema choice: the registry is the list of registrations made so far, schema
  \<open>s\<close> gets the id \<open>100 + s\<close>, and the engine writes the schema and the datum as two
  bytes.\<close>

definition demo_register :: "unit \<Rightarrow> string \<Rightarrow> nat \<Rightarrow> (string \<times> nat) list \<Rightarrow> (py_exc + int) \<times> (string \<times> nat) list" where
  "demo_register client subject s x = (Inr (100 + int s), x @ [(subject, s)])"

definition demo_engine :: "nat \<Rightarrow> nat \<Rightarrow> py_exc + bytes" where
  "demo_engine s d = Inr [of_nat s, of_nat d]"

text \<open>For the constructors: a client is represented by the configuration it was built
  with, and both constructors of the collaborators accept whatever they get.\<close>

definition demo_new_client :: "py_dict \<Rightarrow> py_exc + py_dict" where
  "demo_new_client conf = Inr conf"

definition demo_new_transport :: "py_dict \<Rightarrow> py_exc + py_dict" where
  "demo_new_transport conf = Inr conf"

definition demo_config :: py_dict where
  "demo_config =
     [(''bootstrap.servers'', VStr ''broker:9092''),
      (''schema.registry.url'', VStr ''http://registry:8081''),
      (''schema.registry.basic.auth.credentials.source'', VStr ''SASL_INHERIT''),
      (''sasl.username'', VStr ''alice''),
      (''sasl.password'', VStr ''secret'')]"

text \<open>Two more configurations: one with no registry url, and one where a second key is
  renamed to \<^verbatim>\<open>basic.auth.credentials.source\<close> and, coming later, takes the place of the
  first.\<close>

definition demo_config_no_url :: py_dict where
  "demo_config_no_url =
     [(''bootstrap.servers'', VStr ''broker:9092''),
      (''schema.registry.basic.auth.credentials.source'', VStr ''SASL_INHERIT''),
      (''sasl.username'', VStr ''alice'')]"

definition demo_config_shadowed :: py_dict where
  "demo_config_shadowed =
     [(''schema.registry.basic.auth.credentials.source'', VStr ''SASL_INHERIT''),
      (''schema.registry.schema.registry.basic.auth.credentials.source'', VStr ''USER_INFO''),
      (''sasl.username'', VStr ''alice'')]"


section \<open>Fixed-width codecs: lengths and round trips\<close>

lemma be_uint_snoc: "be_uint (bs @ [b]) = be_uint bs * 256 + uint b"
  by (simp add: be_uint_def)

lemma length_be_bytes: "length (be_bytes n v) = n"
  by (induction n arbitrary: v) auto

lemma be_uint_be_bytes: "be_uint (be_bytes n v) = v mod 2 ^ (8 * n)"
proof (induction n arbitrary: v)
  case 0
  then show ?case by (simp add: be_uint_def)
next
  case (Suc n)
  have "be_uint (be_bytes (Suc n) v) = (v div 256) mod 2 ^ (8 * n) * 256 + v mod 256"
    by (simp add: be_uint_snoc Suc uint_word_of_int)
  also have "\<dots> = v mod (256 * 2 ^ (8 * n))"
    by (simp add: zmod_zmult2_eq)
  also have "\<dots> = v mod 2 ^ (8 * Suc n)"
    by (simp add: power_add)
  finally show ?case .
qed


lemma be_bytes_roundtrip:
  assumes "0 < n" and "- (2 ^ (8 * n - 1)) \<le> v" and "v < 2 ^ (8 * n - 1)"
  shows "to_signed n (be_uint (be_bytes n (v mod 2 ^ (8 * n)))) = v"
proof -
  have "Suc (8 * n - 1) = 8 * n"
    using assms(1) by simp
  then have dbl: "(2::int) ^ (8 * n) = 2 * 2 ^ (8 * n - 1)"
    by (metis power_Suc)
  have pos: "(0::int) < 2 ^ (8 * n - 1)" by simp
  have "be_uint (be_bytes n (v mod 2 ^ (8 * n))) = v mod 2 ^ (8 * n)"
    by (simp add: be_uint_be_bytes)
  moreover have "to_signed n (v mod 2 ^ (8 * n)) = v"
  proof (cases "0 \<le> v")
    case True
    then have "v mod 2 ^ (8 * n) = v"
      using assms(3) dbl pos by (intro mod_pos_pos_trivial) linarith+
    then show ?thesis using assms(3) by (simp add: to_signed_def)
  next
    case False
    then have "v mod 2 ^ (8 * n) = v + 2 ^ (8 * n)"
      using assms(2) dbl pos by (intro int_mod_pos_eq [where q = "-1"]) linarith+
    then show ?thesis using False assms(2) dbl by (simp add: to_signed_def)
  qed
  ultimately show ?thesis by simp
qed


lemma be_bytes_numeral:
  "be_bytes (numeral k) v = be_bytes (pred_numeral k) (v div 256) @ [word_of_int v]"
  by (simp add: numeral_eq_Suc)

lemma struct_roundtrip:
  assumes "- (2 ^ (8 * calcsize fmt - 1)) \<le> v" and "v < 2 ^ (8 * calcsize fmt - 1)"
  shows "\<exists>b. struct_pack fmt v = Inr b \<and> length b = calcsize fmt \<and> struct_unpack fmt b = Inr v"
proof -
  have "0 < calcsize fmt" by (cases fmt) simp_all
  then have "to_signed (calcsize fmt) (be_uint (be_bytes (calcsize fmt) (v mod 2 ^ (8 * calcsize fmt)))) = v"
    using assms by (rule be_bytes_roundtrip)
  then show ?thesis
    using assms by (simp add: struct_pack_def struct_unpack_def Let_def length_be_bytes)
qed

text \<open>
  C3. For every integer \<open>v\<close> that fits the codec's width (16 bits for \<^verbatim>\<open>ShortSerializer\<close>,
  32 for \<^verbatim>\<open>IntegerSerializer\<close>, 64 for \<^verbatim>\<open>LongSerializer\<close>), \<^verbatim>\<open>serialize(v, ctx)\<close> returns
  bytes, and \<^verbatim>\<open>deserialize\<close> of those bytes returns \<open>v\<close>.
\<close>

theorem integer_codecs_roundtrip:
  "(- (2 ^ 15) \<le> v \<and> v < 2 ^ 15 \<longrightarrow>
      (\<exists>b. ShortSerializer_serialize ver (Some v) ctx = Inr (Some b) \<and>
           ShortSerializer_deserialize (Some b) ctx = Inr (Some v))) \<and>
   (- (2 ^ 31) \<le> v \<and> v < 2 ^ 31 \<longrightarrow>
      (\<exists>b. IntegerSerializer_serialize ver (Some v) ctx = Inr (Some b) \<and>
           IntegerSerializer_deserialize ver (Some b) ctx = Inr (Some v))) \<and>
   (- (2 ^ 63) \<le> v \<and> v < 2 ^ 63 \<longrightarrow>
      (\<exists>b. LongSerializer_serialize (Some v) ctx = Inr (Some b) \<and>
           LongSerializer_deserialize (Some b) ctx = Inr (Some v)))"
proof (intro conjI impI)
  assume "- (2 ^ 15) \<le> v \<and> v < 2 ^ 15"
  then obtain b where "struct_pack Fmt_h v = Inr b" "struct_unpack Fmt_h b = Inr v"
    using struct_roundtrip [of Fmt_h v] by auto
  then show "\<exists>b. ShortSerializer_serialize ver (Some v) ctx = Inr (Some b) \<and>
           ShortSerializer_deserialize (Some b) ctx = Inr (Some v)"
    by (simp add: ShortSerializer_serialize_def ShortSerializer_deserialize_def)
next
  assume "- (2 ^ 31) \<le> v \<and> v < 2 ^ 31"
  then obtain b where "struct_pack Fmt_i v = Inr b" "struct_unpack Fmt_i b = Inr v"
    using struct_roundtrip [of Fmt_i v] by auto
  then show "\<exists>b. IntegerSerializer_serialize ver (Some v) ctx = Inr (Some b) \<and>
           IntegerSerializer_deserialize ver (Some b) ctx = Inr (Some v)"
    by (simp add: IntegerSerializer_serialize_def IntegerSerializer_deserialize_def)
next
  assume "- (2 ^ 63) \<le> v \<and> v < 2 ^ 63"
  then obtain b where "struct_pack Fmt_q v = Inr b" "struct_unpack Fmt_q b = Inr v"
    using struct_roundtrip [of Fmt_q v] by auto
  then show "\<exists>b. LongSerializer_serialize (Some v) ctx = Inr (Some b) \<and>
           LongSerializer_deserialize (Some b) ctx = Inr (Some v)"
    by (simp add: LongSerializer_serialize_def LongSerializer_deserialize_def)
qed

theorem integer_codecs_roundtrip_witness:
  "ShortSerializer_serialize Py3 (Some (- 32768)) \<lparr>topic = ''t'', field = KEY\<rparr> = Inr (Some [0x80, 0x00]) \<and>
   ShortSerializer_deserialize (Some [0x80, 0x00]) \<lparr>topic = ''t'', field = KEY\<rparr> = Inr (Some (- 32768)) \<and>
   IntegerSerializer_serialize Py3 (Some 2147483647) \<lparr>topic = ''t'', field = KEY\<rparr> = Inr (Some [0x7F, 0xFF, 0xFF, 0xFF]) \<and>
   IntegerSerializer_deserialize Py3 (Some [0x7F, 0xFF, 0xFF, 0xFF]) \<lparr>topic = ''t'', field = KEY\<rparr> = Inr (Some 2147483647) \<and>
   LongSerializer_serialize (Some (- 2)) \<lparr>topic = ''t'', field = KEY\<rparr> = Inr (Some [0xFF, 0xFF, 0xFF, 0xFF, 0xFF, 0xFF, 0xFF, 0xFE]) \<and>
   LongSerializer_deserialize (Some [0xFF, 0xFF, 0xFF, 0xFF, 0xFF, 0xFF, 0xFF, 0xFE]) \<lparr>topic = ''t'', field = KEY\<rparr> = Inr (Some (- 2))"
proof -
  let ?c = "\<lparr>topic = ''t'', field = KEY\<rparr>"
  have s: "ShortSerializer_serialize Py3 (Some (- 32768)) ?c = Inr (Some [0x80, 0x00])"
    by (simp add: ShortSerializer_serialize_def struct_pack_def be_bytes_numeral)
  have i: "IntegerSerializer_serialize Py3 (Some 2147483647) ?c = Inr (Some [0x7F, 0xFF, 0xFF, 0xFF])"
    by (simp add: IntegerSerializer_serialize_def struct_pack_def be_bytes_numeral)
  have l: "LongSerializer_serialize (Some (- 2)) ?c = Inr (Some [0xFF, 0xFF, 0xFF, 0xFF, 0xFF, 0xFF, 0xFF, 0xFE])"
    by (simp add: LongSerializer_serialize_def struct_pack_def be_bytes_numeral)
  show ?thesis
    using integer_codecs_roundtrip [of "- 32768" Py3 ?c]
      integer_codecs_roundtrip [of 2147483647 Py3 ?c]
      integer_codecs_roundtrip [of "- 2" Py3 ?c] s i l
    by simp
qed

text \<open>
  C8. The length of what \<^verbatim>\<open>serialize\<close> returns is exact: 2 bytes from \<^verbatim>\<open>ShortSerializer\<close>,
  4 from \<^verbatim>\<open>IntegerSerializer\<close> and \<^verbatim>\<open>FloatSerializer\<close>, 8 from \<^verbatim>\<open>LongSerializer\<close> and
  \<^verbatim>\<open>DoubleSerializer\<close>, for every value in the range of the format (every float for
  \<^verbatim>\<open>'>d'\<close>; for \<^verbatim>\<open>'>f'\<close> every float that narrows to a single).
\<close>

theorem serialized_widths:
  "(- (2 ^ 15) \<le> v \<and> v < 2 ^ 15 \<longrightarrow>
      (\<exists>b. ShortSerializer_serialize ver (Some v) ctx = Inr (Some b) \<and> length b = 2)) \<and>
   (- (2 ^ 31) \<le> v \<and> v < 2 ^ 31 \<longrightarrow>
      (\<exists>b. IntegerSerializer_serialize ver (Some v) ctx = Inr (Some b) \<and> length b = 4)) \<and>
   (- (2 ^ 63) \<le> v \<and> v < 2 ^ 63 \<longrightarrow>
      (\<exists>b. LongSerializer_serialize (Some v) ctx = Inr (Some b) \<and> length b = 8)) \<and>
   (narrow x = Some s \<longrightarrow>
      (\<exists>b. FloatSerializer_serialize narrow (Some x) ctx = Inr (Some b) \<and> length b = 4)) \<and>
   (\<exists>b. DoubleSerializer_serialize (Some x) ctx = Inr (Some b) \<and> length b = 8)"
proof (intro conjI impI)
  assume "- (2 ^ 15) \<le> v \<and> v < 2 ^ 15"
  then obtain b where "struct_pack Fmt_h v = Inr b" "length b = calcsize Fmt_h"
    using struct_roundtrip [of Fmt_h v] by auto
  then show "\<exists>b. ShortSerializer_serialize ver (Some v) ctx = Inr (Some b) \<and> length b = 2"
    by (simp add: ShortSerializer_serialize_def)
next
  assume "- (2 ^ 31) \<le> v \<and> v < 2 ^ 31"
  then obtain b where "struct_pack Fmt_i v = Inr b" "length b = calcsize Fmt_i"
    using struct_roundtrip [of Fmt_i v] by auto
  then show "\<exists>b. IntegerSerializer_serialize ver (Some v) ctx = Inr (Some b) \<and> length b = 4"
    by (simp add: IntegerSerializer_serialize_def)
next
  assume "- (2 ^ 63) \<le> v \<and> v < 2 ^ 63"
  then obtain b where "struct_pack Fmt_q v = Inr b" "length b = calcsize Fmt_q"
    using struct_roundtrip [of Fmt_q v] by auto
  then show "\<exists>b. LongSerializer_serialize (Some v) ctx = Inr (Some b) \<and> length b = 8"
    by (simp add: LongSerializer_serialize_def)
next
  assume "narrow x = Some s"
  then show "\<exists>b. FloatSerializer_serialize narrow (Some x) ctx = Inr (Some b) \<and> length b = 4"
    by (simp add: FloatSerializer_serialize_def struct_pack_f_def length_be_bytes)
next
  show "\<exists>b. DoubleSerializer_serialize (Some x) ctx = Inr (Some b) \<and> length b = 8"
    by (simp add: DoubleSerializer_serialize_def struct_pack_d_def length_be_bytes)
qed

theorem serialized_widths_witness:
  "(\<exists>b. ShortSerializer_serialize Py3 (Some 258) \<lparr>topic = ''t'', field = VALUE\<rparr> = Inr (Some b) \<and> length b = 2) \<and>
   (\<exists>b. IntegerSerializer_serialize Py3 (Some 258) \<lparr>topic = ''t'', field = VALUE\<rparr> = Inr (Some b) \<and> length b = 4) \<and>
   (\<exists>b. LongSerializer_serialize (Some 258) \<lparr>topic = ''t'', field = VALUE\<rparr> = Inr (Some b) \<and> length b = 8) \<and>
   (\<exists>b. FloatSerializer_serialize (\<lambda>x. if x = 0 then Some 0 else None) (Some 0)
          \<lparr>topic = ''t'', field = VALUE\<rparr> = Inr (Some b) \<and> length b = 4) \<and>
   (\<exists>b. DoubleSerializer_serialize (Some 0) \<lparr>topic = ''t'', field = VALUE\<rparr> = Inr (Some b) \<and> length b = 8)"
  using serialized_widths [of 258 Py3 "\<lparr>topic = ''t'', field = VALUE\<rparr>"
      "\<lambda>x. if x = 0 then Some 0 else None" 0 0]
  by simp

section \<open>The write path: key, then value, then the transport\<close>

text \<open>What a serializer adds to the trace is its own business with the converter and the
  encoder: never a value serialization of \<^verbatim>\<open>produce\<close>, never a send.\<close>

lemma serialize_trace:
  "\<exists>extra. trace (snd (AvroProducerSerializer_serialize enc self sch d ctx st)) = trace st @ extra \<and>
     filter is_value_serialization extra = [] \<and> filter is_transport_send extra = []"
  by (auto simp: AvroProducerSerializer_serialize_def logged_def Let_def
      split: option.splits sum.splits prod.splits)

text \<open>
  C1. In \<^verbatim>\<open>AvroProducer.produce\<close> the key is serialized first, on every call. If that raises a
  serializer error, \<^verbatim>\<open>KeySerializerError\<close> with the same message is raised, and the state is
  the one key serialization left: no value serialization, no send. If the key succeeds and
  value serialization raises a serializer error, \<^verbatim>\<open>ValueSerializerError\<close> is raised and
  nothing is sent. A send happens only after both have returned, once, with their results.
\<close>

theorem produce_ordering:
  fixes self :: "('r, 's, 'd, 't) AvroProducer" and kwargs :: "('s, 'd, 'k) produce_kwargs"
    and st :: "('s, 'd, 'x) state"
  shows
  "(let key_done = AvroProducerSerializer_serialize enc (p_key_serializer self)
                     (kw_key_schema kwargs) (kw_key kwargs) \<lparr>topic = tpc, field = KEY\<rparr>
                     (logged (Call_serialize KEY (kw_key_schema kwargs) (kw_key kwargs)) st);
        value_done = AvroProducerSerializer_serialize enc (p_value_serializer self)
                     (kw_value_schema kwargs) (kw_value kwargs) \<lparr>topic = tpc, field = VALUE\<rparr>
                     (logged (Call_serialize VALUE (kw_value_schema kwargs) (kw_value kwargs)) (snd key_done));
        res = AvroProducer_produce enc send self tpc kwargs st;
        calls = drop (length (trace st)) (trace (snd res))
    in take (length (trace st)) (trace (snd res)) = trace st \<and>
       hd calls = Call_serialize KEY (kw_key_schema kwargs) (kw_key kwargs) \<and>
       (\<forall>e m. fst key_done = Inl e \<and> caught_SerializerError e = Some m \<longrightarrow>
          fst res = Inl (KeySerializerError m) \<and> snd res = snd key_done \<and>
          filter is_value_serialization calls = [] \<and> filter is_transport_send calls = []) \<and>
       (\<forall>kb e m. fst key_done = Inr kb \<and> fst value_done = Inl e \<and> caught_SerializerError e = Some m \<longrightarrow>
          fst res = Inl (ValueSerializerError m) \<and> snd res = snd value_done \<and>
          filter is_transport_send calls = []) \<and>
       (filter is_transport_send calls \<noteq> [] \<longrightarrow>
          (\<exists>kb vb. fst key_done = Inr kb \<and> fst value_done = Inr vb \<and>
             filter is_transport_send calls = [Call_produce tpc vb kb])))"
proof -
  let ?ks = "logged (Call_serialize KEY (kw_key_schema kwargs) (kw_key kwargs)) st"
  let ?kd = "AvroProducerSerializer_serialize enc (p_key_serializer self)
                     (kw_key_schema kwargs) (kw_key kwargs) \<lparr>topic = tpc, field = KEY\<rparr> ?ks"
  let ?vs = "logged (Call_serialize VALUE (kw_value_schema kwargs) (kw_value kwargs)) (snd ?kd)"
  let ?vd = "AvroProducerSerializer_serialize enc (p_value_serializer self)
                     (kw_value_schema kwargs) (kw_value kwargs) \<lparr>topic = tpc, field = VALUE\<rparr> ?vs"
  let ?res = "AvroProducer_produce enc send self tpc kwargs st"
  obtain ke where ke: "trace (snd ?kd) = trace ?ks @ ke"
    "filter is_value_serialization ke = []" "filter is_transport_send ke = []"
    using serialize_trace [of enc "p_key_serializer self" "kw_key_schema kwargs" "kw_key kwargs"
        "\<lparr>topic = tpc, field = KEY\<rparr>" ?ks] by blast
  obtain ve where ve: "trace (snd ?vd) = trace ?vs @ ve"
    "filter is_transport_send ve = []"
    using serialize_trace [of enc "p_value_serializer self" "kw_value_schema kwargs" "kw_value kwargs"
        "\<lparr>topic = tpc, field = VALUE\<rparr>" ?vs] by blast
  have tk: "trace (snd ?kd) = trace st @ Call_serialize KEY (kw_key_schema kwargs) (kw_key kwargs) # ke"
    using ke(1) by (simp add: logged_def)
  have tv: "trace (snd ?vd) = trace st @ Call_serialize KEY (kw_key_schema kwargs) (kw_key kwargs) # ke @
      Call_serialize VALUE (kw_value_schema kwargs) (kw_value kwargs) # ve"
    using ve(1) tk by (simp add: logged_def)
  show ?thesis
  proof (cases "fst ?kd")
    case (Inl e)
    then have r: "snd ?res = snd ?kd"
      "fst ?res = (case caught_SerializerError e of Some m \<Rightarrow> Inl (KeySerializerError m) | None \<Rightarrow> Inl e)"
      by (auto simp: AvroProducer_produce_def Let_def split: prod.splits option.splits)
    show ?thesis
      using Inl r tk ke by (auto simp: Let_def)
  next
    case (Inr kb)
    note k = Inr
    show ?thesis
    proof (cases "fst ?vd")
      case (Inl e)
      then have r: "snd ?res = snd ?vd"
        "fst ?res = (case caught_SerializerError e of Some m \<Rightarrow> Inl (ValueSerializerError m) | None \<Rightarrow> Inl e)"
        using k by (auto simp: AvroProducer_produce_def Let_def split: prod.splits option.splits)
      show ?thesis
        using Inl k r tv ke ve by (auto simp: Let_def)
    next
      case (Inr vb)
      then have r: "trace (snd ?res) = trace (snd ?vd) @ [Call_produce tpc vb kb]"
        using k by (auto simp: AvroProducer_produce_def Let_def logged_def split: prod.splits option.splits)
      show ?thesis
        using Inr k r tv ke ve by (auto simp: Let_def)
    qed
  qed
qed

theorem produce_ordering_witness:
  "AvroProducer_produce demo_encode demo_send demo_producer ''t'' (demo_kwargs (Some 0) (Some 5)) demo_start =
     (Inl (KeySerializerError (MsgStr ''bad datum'')),
      \<lparr>trace = [Call_serialize KEY None (Some 0), Call_encode (Some 7) 0 \<lparr>topic = ''t'', field = KEY\<rparr>],
        ext = 0\<rparr>) \<and>
   AvroProducer_produce demo_encode demo_send demo_producer ''t'' (demo_kwargs (Some 5) (Some 0)) demo_start =
     (Inl (ValueSerializerError (MsgStr ''bad datum'')),
      \<lparr>trace = [Call_serialize KEY None (Some 5), Call_encode (Some 7) 5 \<lparr>topic = ''t'', field = KEY\<rparr>,
                Call_serialize VALUE None (Some 0), Call_encode (Some 8) 0 \<lparr>topic = ''t'', field = VALUE\<rparr>],
        ext = 1\<rparr>) \<and>
   filter is_transport_send
     (trace (snd (AvroProducer_produce demo_encode demo_send demo_producer ''t''
                    (demo_kwargs (Some 5) (Some 6)) demo_start))) =
     [Call_produce ''t'' (Some [6]) (Some [5])]"
proof -
  note eqs = AvroProducer_produce_def AvroProducerSerializer_serialize_def AvroSerializer_init_def
    logged_def Let_def demo_encode_def demo_send_def demo_producer_def demo_kwargs_def demo_start_def
  show ?thesis
    using produce_ordering [of demo_encode demo_producer "demo_kwargs (Some 0) (Some 5)" "''t''" demo_start demo_send]
      produce_ordering [of demo_encode demo_producer "demo_kwargs (Some 5) (Some 0)" "''t''" demo_start demo_send]
      produce_ordering [of demo_encode demo_producer "demo_kwargs (Some 5) (Some 6)" "''t''" demo_start demo_send]
    by (simp add: eqs)
qed

section \<open>Null in, null out\<close>

text \<open>
  C4. Every serializer returns \<^verbatim>\<open>None\<close> for \<^verbatim>\<open>None\<close>, in both directions and in every context,
  without raising. For the Avro producer serializer the state is untouched as well: no call
  of the converter or of the encoder, nothing done to the registry. (Its \<^verbatim>\<open>deserialize\<close> is
  the inherited one.)
\<close>

theorem null_short_circuit:
  "DoubleSerializer_serialize None ctx = Inr None \<and>
   DoubleSerializer_deserialize None ctx = Inr None \<and>
   FloatSerializer_serialize narrow None ctx = Inr None \<and>
   FloatSerializer_deserialize widen None ctx = Inr None \<and>
   LongSerializer_serialize None ctx = Inr None \<and>
   LongSerializer_deserialize None ctx = Inr None \<and>
   IntegerSerializer_serialize ver None ctx = Inr None \<and>
   IntegerSerializer_deserialize ver None ctx = Inr None \<and>
   ShortSerializer_serialize ver None ctx = Inr None \<and>
   ShortSerializer_deserialize None ctx = Inr None \<and>
   StringSerializer_serialize ver codec None ctx = Inr None \<and>
   StringSerializer_deserialize ver codec None ctx = Inr None \<and>
   AvroProducerSerializer_serialize encode_method self sch None ctx st = (Inr None, st) \<and>
   AvroSerializer_deserialize get_by_id engine_decode self None octx x = (Inr None, x)"
  by (simp add: DoubleSerializer_serialize_def DoubleSerializer_deserialize_def
      FloatSerializer_serialize_def FloatSerializer_deserialize_def
      LongSerializer_serialize_def LongSerializer_deserialize_def
      IntegerSerializer_serialize_def IntegerSerializer_deserialize_def
      ShortSerializer_serialize_def ShortSerializer_deserialize_def
      StringSerializer_serialize_def StringSerializer_deserialize_def
      AvroProducerSerializer_serialize_def AvroSerializer_deserialize_def)

section \<open>Malformed input to deserialize\<close>

text \<open>Where the handler wraps the caught object, a buffer of the wrong length gives a
  serializer error that carries the \<^verbatim>\<open>struct.error\<close>, on either interpreter line.\<close>

lemma wrong_length_wrapped:
  "length d \<noteq> 8 \<Longrightarrow> \<exists>m. DoubleSerializer_deserialize (Some d) ctx = Inl (SerializerError (MsgExc (StructError m)))"
  "length d \<noteq> 4 \<Longrightarrow> \<exists>m. FloatSerializer_deserialize widen (Some d) ctx = Inl (SerializerError (MsgExc (StructError m)))"
  "length d \<noteq> 8 \<Longrightarrow> \<exists>m. LongSerializer_deserialize (Some d) ctx = Inl (SerializerError (MsgExc (StructError m)))"
  "length d \<noteq> 2 \<Longrightarrow> \<exists>m. ShortSerializer_deserialize (Some d) ctx = Inl (SerializerError (MsgExc (StructError m)))"
  "length d \<noteq> 4 \<Longrightarrow> \<exists>m. IntegerSerializer_deserialize Py2 (Some d) ctx = Inl (SerializerError (MsgStr m))"
  by (simp_all add: DoubleSerializer_deserialize_def FloatSerializer_deserialize_def
      LongSerializer_deserialize_def ShortSerializer_deserialize_def IntegerSerializer_deserialize_def
      struct_unpack_d_def struct_unpack_f_def struct_unpack_def)

text \<open>Whatever the codec raises when it cannot decode leaves \<^verbatim>\<open>StringSerializer.deserialize\<close>
  as it is, unless it is a \<^verbatim>\<open>struct.error\<close>, which no codec raises.\<close>

lemma string_deserialize_passes_on:
  "decode codec d = Inl e \<Longrightarrow> (\<forall>m. e \<noteq> StructError m) \<Longrightarrow>
   StringSerializer_deserialize ver codec (Some d) ctx = Inl e"
  by (cases e; cases ver) (simp_all add: StringSerializer_deserialize_def)

text \<open>
  C2 says that \<^verbatim>\<open>deserialize\<close> of every primitive codec answers malformed bytes with a
  \<^verbatim>\<open>SerializerError\<close> and with nothing else. Two of the six do not. The byte FF is not UTF-8:
  the default \<^verbatim>\<open>StringSerializer\<close> lets the \<^verbatim>\<open>UnicodeDecodeError\<close> through, on both
  interpreter lines. Two bytes are not a 4-byte integer: on Python 3 \<^verbatim>\<open>IntegerSerializer\<close>
  raises \<^verbatim>\<open>AttributeError\<close> from its own handler.
\<close>

theorem deserialize_escapes:
  "StringSerializer_deserialize ver utf_8 (Some [0xFF]) ctx = Inl (UnicodeDecodeError ''utf-8'' 0) \<and>
   IntegerSerializer_deserialize Py3 (Some [0x00, 0x01]) ctx =
     Inl (AttributeError ''error object has no attribute message'')"
  by (cases ver)
    (simp_all add: StringSerializer_deserialize_def utf_8_def utf8_seq_len_def
      IntegerSerializer_deserialize_def struct_unpack_def)

section \<open>The read path\<close>

text \<open>
  C5. When the polled record carries a transport error, \<^verbatim>\<open>AvroConsumer.poll\<close> returns it exactly
  as the transport gave it: after the poll no deserializer is called, key and value stay as
  they are, and nothing is raised. When the transport returns no record, \<^verbatim>\<open>poll\<close> returns
  \<^verbatim>\<open>None\<close>.
\<close>

theorem poll_transport_error_untouched:
  "(transport_poll timeout (ext st) = (Inr (Some message), x1) \<and> msg_error message = Some err \<longrightarrow>
      AvroConsumer_poll transport_poll deserialize_method str_of self timeout st =
        (Inr (Some message), st\<lparr>trace := trace st @ [Call_poll], ext := x1\<rparr>)) \<and>
   (transport_poll timeout (ext st) = (Inr None, x1) \<longrightarrow>
      AvroConsumer_poll transport_poll deserialize_method str_of self timeout st =
        (Inr None, st\<lparr>trace := trace st @ [Call_poll], ext := x1\<rparr>))"
  by (simp add: AvroConsumer_poll_def logged_def)

theorem poll_transport_error_untouched_witness:
  "AvroConsumer_poll demo_poll demo_deserialize demo_str demo_consumer 0
     (demo_inbox (demo_message (Some 9) (Some 0) (Some 0))) =
     (Inr (Some (demo_message (Some 9) (Some 0) (Some 0))),
      \<lparr>trace = [Call_poll], ext = \<lparr>pending = None, lookups = 0\<rparr>\<rparr>) \<and>
   AvroConsumer_poll demo_poll demo_deserialize demo_str demo_consumer 0
     \<lparr>trace = [], ext = \<lparr>pending = None, lookups = 0\<rparr>\<rparr> =
     (Inr None, \<lparr>trace = [Call_poll], ext = \<lparr>pending = None, lookups = 0\<rparr>\<rparr>)"
  using poll_transport_error_untouched [of demo_poll 0 "demo_inbox (demo_message (Some 9) (Some 0) (Some 0))"
      "demo_message (Some 9) (Some 0) (Some 0)" "\<lparr>pending = None, lookups = 0\<rparr>" 9 demo_deserialize demo_str demo_consumer]
    poll_transport_error_untouched [of demo_poll 0 "\<lparr>trace = [], ext = \<lparr>pending = None, lookups = 0\<rparr>\<rparr>"
      "demo_message (Some 9) (Some 0) (Some 0)" "\<lparr>pending = None, lookups = 0\<rparr>" 9 demo_deserialize demo_str demo_consumer]
  by (simp add: demo_poll_def demo_inbox_def demo_message_def)

text \<open>
  C6. When the record has no transport error and deserializing its value, or (the value
  done) its key, raises a serializer error \<open>e\<close>, \<^verbatim>\<open>poll\<close> raises one \<^verbatim>\<open>SerializerError\<close> whose
  message spells the topic, the partition and the offset of the record, then \<^verbatim>\<open>str(e)\<close>.
\<close>

theorem poll_failure_located:
  assumes "transport_poll timeout (ext st) = (Inr (Some message), x1)"
    and "msg_error message = None"
    and "deserialize_method (c_value_serializer self) (msg_value message) None x1 = (value_result, x2)"
    and "deserialize_method (c_key_serializer self) (msg_key message) None x2 = (key_result, x3)"
    and "caught_SerializerError e = Some m"
    and "value_result = Inl e \<or> (\<exists>v. value_result = Inr v) \<and> key_result = Inl e"
  shows "fst (AvroConsumer_poll transport_poll deserialize_method str_of self timeout st) =
     Inl (SerializerError (MsgStr
       (''Message deserialization failed for message at '' @ format_str (msg_topic message) @
        '' ['' @ format_int (msg_partition message) @ ''] offset '' @
        format_int (msg_offset message) @ '': '' @ str_of e)))"
  using assms
  by (auto simp: AvroConsumer_poll_def logged_def Let_def poll_handler_def poll_failure_message_def)

theorem poll_failure_located_witness:
  "fst (AvroConsumer_poll demo_poll demo_deserialize demo_str demo_consumer 0
     (demo_inbox (demo_message None (Some 0) (Some 5)))) =
     Inl (SerializerError (MsgStr ''Message deserialization failed for message at orders [3] offset 42: boom'')) \<and>
   fst (AvroConsumer_poll demo_poll demo_deserialize demo_str demo_consumer 0
     (demo_inbox (demo_message None (Some 5) (Some 0)))) =
     Inl (SerializerError (MsgStr ''Message deserialization failed for message at orders [3] offset 42: boom''))"
proof -
  note eqs = demo_poll_def demo_inbox_def demo_message_def demo_deserialize_def demo_str_def
    demo_consumer_def AvroSerializer_init_def format_str_def format_int_def str_int_def digit_char_def
  have a: "fst (AvroConsumer_poll demo_poll demo_deserialize demo_str demo_consumer 0
     (demo_inbox (demo_message None (Some 0) (Some 5)))) =
     Inl (SerializerError (MsgStr ''Message deserialization failed for message at orders [3] offset 42: boom''))"
    using poll_failure_located [of demo_poll 0 "demo_inbox (demo_message None (Some 0) (Some 5))"
        "demo_message None (Some 0) (Some 5)" "\<lparr>pending = None, lookups = 0\<rparr>"
        demo_deserialize demo_consumer "Inl (SerializerError (MsgStr ''boom''))" "\<lparr>pending = None, lookups = 1\<rparr>"
        "Inr (Some 1005)" "\<lparr>pending = None, lookups = 2\<rparr>" "SerializerError (MsgStr ''boom'')" "MsgStr ''boom''" demo_str]
    by (simp add: eqs)
  have b: "fst (AvroConsumer_poll demo_poll demo_deserialize demo_str demo_consumer 0
     (demo_inbox (demo_message None (Some 5) (Some 0)))) =
     Inl (SerializerError (MsgStr ''Message deserialization failed for message at orders [3] offset 42: boom''))"
    using poll_failure_located [of demo_poll 0 "demo_inbox (demo_message None (Some 5) (Some 0))"
        "demo_message None (Some 5) (Some 0)" "\<lparr>pending = None, lookups = 0\<rparr>"
        demo_deserialize demo_consumer "Inr (Some 1005)" "\<lparr>pending = None, lookups = 1\<rparr>"
        "Inl (SerializerError (MsgStr ''boom''))" "\<lparr>pending = None, lookups = 2\<rparr>" "SerializerError (MsgStr ''boom'')" "MsgStr ''boom''" demo_str]
    by (simp add: eqs)
  show ?thesis using a b by simp
qed

section \<open>Which schema the producer serializer uses\<close>

text \<open>What the inherited encoder does with the schema it is given: it registers that schema
  under the subject of the context, encodes against it, and frames the body with the id.\<close>

lemma encode_registers_and_frames:
  assumes "register (registry_client self) (subject_name ctx) s x = (Inr schema_id, x1)"
    and "engine_encode s d = Inr body"
    and "- (2 ^ 31) \<le> schema_id" and "schema_id < 2 ^ 31"
  shows "AvroSerializer_encode register engine_encode self (Some s) d ctx x =
     (Inr (0 # be_bytes 4 (schema_id mod 2 ^ 32) @ body), x1)"
  using assms
  by (simp add: AvroSerializer_encode_def frame_def struct_pack_def MAGIC_BYTE_def)

text \<open>
  C7. For a datum that is not \<^verbatim>\<open>None\<close> (and that the conversion hook, when one is bound,
  accepts): with a schema override, the override is the schema handed to the encoder, hence
  the one registered and encoded against, whatever the bound default; without an override
  the bound default is; with neither, serialization fails with the configuration error and
  the registry is not touched.
\<close>

theorem schema_precedence:
  fixes self :: "('r, 's, 'd) AvroSerializer" and st :: "('s, 'd, 'x) state"
  assumes conv: "case converter self of None \<Rightarrow> dd = d | Some c \<Rightarrow> to_dict c d = Inr dd"
  shows
  "(let res = AvroProducerSerializer_serialize (AvroSerializer_encode register engine_encode)
                self sch (Some d) ctx st;
        encoded = (\<lambda>s. AvroSerializer_encode register engine_encode self (Some s) dd ctx (ext st))
    in (\<forall>s. sch = Some s \<longrightarrow>
          last (trace (snd res)) = Call_encode (Some s) dd ctx \<and>
          fst res = map_sum id Some (fst (encoded s)) \<and> ext (snd res) = snd (encoded s)) \<and>
       (\<forall>s. sch = None \<and> schema self = Some s \<longrightarrow>
          last (trace (snd res)) = Call_encode (Some s) dd ctx \<and>
          fst res = map_sum id Some (fst (encoded s)) \<and> ext (snd res) = snd (encoded s)) \<and>
       (sch = None \<and> schema self = None \<longrightarrow>
          fst res = Inl SerializationConfigError \<and> ext (snd res) = ext st))"
  using conv
  by (auto simp: AvroProducerSerializer_serialize_def Let_def logged_def AvroSerializer_encode_def
      split: option.splits sum.splits prod.splits)


theorem schema_precedence_witness:
  "AvroProducerSerializer_serialize (AvroSerializer_encode demo_register demo_engine)
     (AvroSerializer_init () (Some 8) None) (Some 7) (Some 5) \<lparr>topic = ''t'', field = VALUE\<rparr>
     \<lparr>trace = [], ext = []\<rparr> =
     (Inr (Some [0, 0, 0, 0, 107, 7, 5]),
      \<lparr>trace = [Call_encode (Some 7) 5 \<lparr>topic = ''t'', field = VALUE\<rparr>], ext = [(''t-value'', 7)]\<rparr>) \<and>
   AvroProducerSerializer_serialize (AvroSerializer_encode demo_register demo_engine)
     (AvroSerializer_init () (Some 8) None) None (Some 5) \<lparr>topic = ''t'', field = KEY\<rparr>
     \<lparr>trace = [], ext = []\<rparr> =
     (Inr (Some [0, 0, 0, 0, 108, 8, 5]),
      \<lparr>trace = [Call_encode (Some 8) 5 \<lparr>topic = ''t'', field = KEY\<rparr>], ext = [(''t-key'', 8)]\<rparr>) \<and>
   AvroProducerSerializer_serialize (AvroSerializer_encode demo_register demo_engine)
     (AvroSerializer_init () None None) None (Some 5) \<lparr>topic = ''t'', field = KEY\<rparr>
     \<lparr>trace = [], ext = []\<rparr> =
     (Inl SerializationConfigError,
      \<lparr>trace = [Call_encode None 5 \<lparr>topic = ''t'', field = KEY\<rparr>], ext = []\<rparr>)"
proof -
  note eqs = AvroProducerSerializer_serialize_def AvroSerializer_encode_def AvroSerializer_init_def
    demo_register_def demo_engine_def logged_def Let_def subject_name_def frame_def struct_pack_def
    MAGIC_BYTE_def be_bytes_numeral
  show ?thesis
    using schema_precedence [where self = "AvroSerializer_init () (Some 8) None" and d = 5 and dd = 5
        and sch = "Some 7" and register = demo_register and engine_encode = demo_engine
        and ctx = "\<lparr>topic = ''t'', field = VALUE\<rparr>" and st = "\<lparr>trace = [], ext = []\<rparr>"]
      schema_precedence [where self = "AvroSerializer_init () (Some 8) None" and d = 5 and dd = 5
        and sch = None and register = demo_register and engine_encode = demo_engine
        and ctx = "\<lparr>topic = ''t'', field = KEY\<rparr>" and st = "\<lparr>trace = [], ext = []\<rparr>"]
      schema_precedence [where self = "AvroSerializer_init () None None" and d = 5 and dd = 5
        and sch = None and register = demo_register and engine_encode = demo_engine
        and ctx = "\<lparr>topic = ''t'', field = KEY\<rparr>" and st = "\<lparr>trace = [], ext = []\<rparr>"]
    by (simp add: eqs)
qed

section \<open>The constructors: what each client is configured with\<close>

text \<open>A dict comprehension, read as a map: of the items with one key, the last.\<close>

lemma map_of_dict_of_items_acc:
  "map_of (foldl (\<lambda>d (k, v). dict_setitem d k v) acc xs) = map_of acc ++ map_of (rev xs)"
proof (induction xs arbitrary: acc)
  case Nil
  then show ?case by simp
next
  case (Cons x xs)
  obtain k v where x: "x = (k, v)" by (cases x)
  have "map_of (foldl (\<lambda>d (k, v). dict_setitem d k v) acc (x # xs)) =
        map_of (dict_setitem acc k v) ++ map_of (rev xs)"
    using Cons.IH [of "dict_setitem acc k v"] x by simp
  also have "\<dots> = (map_of acc ++ [k \<mapsto> v]) ++ map_of (rev xs)"
    by (simp add: dict_setitem_def update_conv')
  also have "\<dots> = map_of acc ++ map_of (rev (x # xs))"
    using x by (simp add: map_add_assoc)
  finally show ?case .
qed

lemma map_of_dict_of_items: "map_of (dict_of_items xs) = map_of (rev xs)"
  by (simp add: dict_of_items_def map_of_dict_of_items_acc)

lemma update_fresh: "k \<notin> fst ` set al \<Longrightarrow> AList.update k v al = al @ [(k, v)]"
  by (induction al) auto

lemma dict_of_items_distinct_acc:
  "distinct (map fst (acc @ xs)) \<Longrightarrow> foldl (\<lambda>d (k, v). dict_setitem d k v) acc xs = acc @ xs"
proof (induction xs arbitrary: acc)
  case Nil
  then show ?case by simp
next
  case (Cons x xs)
  obtain k v where x: "x = (k, v)" by (cases x)
  have fresh: "k \<notin> fst ` set acc" using Cons.prems x by auto
  have "distinct (map fst ((acc @ [(k, v)]) @ xs))" using Cons.prems x by simp
  then have "foldl (\<lambda>d (k, v). dict_setitem d k v) (acc @ [(k, v)]) xs = (acc @ [(k, v)]) @ xs"
    by (rule Cons.IH)
  then show ?case using x fresh by (simp add: dict_setitem_def update_fresh)
qed

lemma dict_of_items_distinct: "distinct (map fst xs) \<Longrightarrow> dict_of_items xs = xs"
  using dict_of_items_distinct_acc [of "[]" xs] by (simp add: dict_of_items_def)

lemma transport_conf_filter:
  "distinct (map fst config) \<Longrightarrow>
   transport_conf config = filter (\<lambda>(key, val). \<not> startswith key ''schema.registry'') config"
  by (simp add: transport_conf_def dict_of_items_distinct distinct_map_filter)

lemma strip_prefixed:
  "str_replace (''schema.registry.'' @ name) ''schema.registry.'' '''' =
   str_replace name ''schema.registry.'' ''''"
  by simp

lemma map_of_unique:
  "(k, v) \<in> set ys \<Longrightarrow> (\<forall>v'. (k, v') \<in> set ys \<longrightarrow> v' = v) \<Longrightarrow> map_of ys k = Some v"
  by (metis map_of_SomeD weak_map_of_SomeI)

text \<open>The comprehension that builds the registry configuration, entry by entry. A key
  \<^verbatim>\<open>schema.registry.\<close>\<open>name\<close> whose \<open>name\<close> holds no further \<^verbatim>\<open>schema.registry.\<close>, and which is
  the only selected key that ends up as \<open>name\<close>, gives \<open>name\<close> its value.\<close>

lemma mapped_entry:
  "(n, w) \<in> set (map (\<lambda>(key, val). (f key, val)) (filter (\<lambda>(key, val). p key) xs)) \<longleftrightarrow>
   (\<exists>k. (k, w) \<in> set xs \<and> p k \<and> f k = n)"
  by force

lemma mapped_keys:
  "fst ` set (map (\<lambda>(key, val). (f key, val)) (filter (\<lambda>(key, val). p key) xs)) =
   f ` {k \<in> fst ` set xs. p k}"
  by force

lemma regular_key_kept:
  assumes dist: "distinct (map fst config)"
    and present: "map_of config (''schema.registry.'' @ name) = Some v"
    and regular: "str_replace name ''schema.registry.'' '''' = name"
    and unique: "\<forall>k \<in> fst ` set config. startswith k ''schema.registry'' \<and>
        str_replace k ''schema.registry.'' '''' = name \<longrightarrow> k = ''schema.registry.'' @ name"
  shows "map_of (dict_of_items
            (map (\<lambda>(key, val). (str_replace key ''schema.registry.'' '''', val))
               (filter (\<lambda>(key, val). startswith key ''schema.registry'') config))) name = Some v"
proof -
  let ?ys = "map (\<lambda>(key, val). (str_replace key ''schema.registry.'' '''', val))
               (filter (\<lambda>(key, val). startswith key ''schema.registry'') config)"
  note entry = mapped_entry [where f = "\<lambda>k. str_replace k ''schema.registry.'' ''''"
      and p = "\<lambda>k. startswith k ''schema.registry''" and xs = config]
  have mem: "(''schema.registry.'' @ name, v) \<in> set config"
    using present by (rule map_of_SomeD)
  have sel: "startswith (''schema.registry.'' @ name) ''schema.registry''"
    by (simp add: startswith_def)
  have strip: "str_replace (''schema.registry.'' @ name) ''schema.registry.'' '''' = name"
    using regular by (simp only: strip_prefixed)
  have in_ys: "(name, v) \<in> set ?ys"
    unfolding entry using mem sel strip by blast
  have only: "v' = v" if "(name, v') \<in> set ?ys" for v'
  proof -
    from that obtain k where k: "(k, v') \<in> set config" "startswith k ''schema.registry''"
      "str_replace k ''schema.registry.'' '''' = name"
      unfolding entry by blast
    from k(1) have "k \<in> fst ` set config" by (rule image_eqI [rotated]) simp
    with unique k(2,3) have "k = ''schema.registry.'' @ name" by blast
    with k(1) have "(''schema.registry.'' @ name, v') \<in> set config" by (simp only:)
    with dist have "map_of config (''schema.registry.'' @ name) = Some v'"
      by (simp only: map_of_eq_Some_iff)
    with present show ?thesis by (simp only: option.inject)
  qed
  have "map_of (rev ?ys) name = Some v"
  proof (rule map_of_unique)
    show "(name, v) \<in> set (rev ?ys)" using in_ys by (simp only: set_rev)
    show "\<forall>v'. (name, v') \<in> set (rev ?ys) \<longrightarrow> v' = v" using only by (simp only: set_rev) blast
  qed
  then show ?thesis by (simp only: map_of_dict_of_items)
qed

lemma three_more: "{c} \<union> ({b} \<union> ({a} \<union> K)) \<subseteq> K \<union> {a, b, c}"
  by blast

lemma sr_conf_keys:
  "fst ` set (schema_registry_conf config) \<subseteq>
     (\<lambda>k. str_replace k ''schema.registry.'' '''') ` {k \<in> fst ` set config. startswith k ''schema.registry''} \<union>
     {''sasl.mechanisms'', ''sasl.username'', ''sasl.password''}"
proof -
  let ?ys = "map (\<lambda>(key, val). (str_replace key ''schema.registry.'' '''', val))
               (filter (\<lambda>(key, val). startswith key ''schema.registry'') config)"
  let ?K = "(\<lambda>k. str_replace k ''schema.registry.'' '''') ` {k \<in> fst ` set config. startswith k ''schema.registry''}"
  have ys: "fst ` set ?ys = ?K"
    by (rule mapped_keys [where f = "\<lambda>k. str_replace k ''schema.registry.'' ''''"
      and p = "\<lambda>k. startswith k ''schema.registry''" and xs = config])
  have "dom (map_of (dict_of_items ?ys)) = dom (map_of (rev ?ys))"
    by (simp only: map_of_dict_of_items)
  then have base: "fst ` set (dict_of_items ?ys) = ?K"
    using ys by (simp only: dom_map_of_conv_image_fst set_rev)
  have dom3: "fst ` set (dict_setitem (dict_setitem (dict_setitem d a x) b y) c z) =
      {c} \<union> ({b} \<union> ({a} \<union> fst ` set d))" for d a b c x y z
    by (simp only: dict_setitem_def dom_update)
  show ?thesis
  proof (cases "dict_get (dict_of_items ?ys) ''basic.auth.credentials.source'' VNone = VStr ''SASL_INHERIT''")
    case True
    have "schema_registry_conf config =
      dict_setitem (dict_setitem (dict_setitem (dict_of_items ?ys)
        ''sasl.mechanisms'' (dict_get config ''sasl.mechanisms'' (VStr '''')))
        ''sasl.username'' (dict_get config ''sasl.username'' (VStr '''')))
        ''sasl.password'' (dict_get config ''sasl.password'' (VStr ''''))"
      unfolding schema_registry_conf_def Let_def by (rule if_P [OF True])
    then have "fst ` set (schema_registry_conf config) =
       {''sasl.password''} \<union> ({''sasl.username''} \<union> ({''sasl.mechanisms''} \<union> ?K))"
      using base by (simp only: dom3)
    then show ?thesis by (simp only: three_more)
  next
    case False
    have "schema_registry_conf config = dict_of_items ?ys"
      unfolding schema_registry_conf_def Let_def by (rule if_not_P [OF False])
    then have "fst ` set (schema_registry_conf config) = ?K"
      using base by (simp only:)
    then show ?thesis by (simp only: Un_upper1)
  qed
qed

lemma explicit_registry_with_url:
  assumes "dict_get (schema_registry_conf config) ''url'' VNone \<noteq> VNone"
  shows "AvroProducer_init new_client new_transport config dks dvs (Some r) =
       Inl (ValueError ''Cannot pass schema_registry along with schema.registry.url config'')"
    and "AvroConsumer_init new_client new_transport config (Some r) rks rvs =
       Inl (ValueError ''Cannot pass schema_registry along with schema.registry.url config'')"
  using assms
  by (simp_all add: AvroProducer_init_def AvroConsumer_init_def resolve_registry_def Let_def)

text \<open>The \<^verbatim>\<open>SASL_INHERIT\<close> block, read as a map; and the constructors when no registry instance
  is passed.\<close>

lemma sasl_block:
  "map_of (schema_registry_conf config) =
     (if dict_get (schema_registry_conf config) ''basic.auth.credentials.source'' VNone = VStr ''SASL_INHERIT''
      then (map_of (dict_of_items
            (map (\<lambda>(key, val). (str_replace key ''schema.registry.'' '''', val))
               (filter (\<lambda>(key, val). startswith key ''schema.registry'') config))))
             (''sasl.mechanisms'' \<mapsto> dict_get config ''sasl.mechanisms'' (VStr ''''),
              ''sasl.username'' \<mapsto> dict_get config ''sasl.username'' (VStr ''''),
              ''sasl.password'' \<mapsto> dict_get config ''sasl.password'' (VStr ''''))
      else map_of (dict_of_items
            (map (\<lambda>(key, val). (str_replace key ''schema.registry.'' '''', val))
               (filter (\<lambda>(key, val). startswith key ''schema.registry'') config))))"
  by (simp add: schema_registry_conf_def Let_def dict_setitem_def update_conv' dict_get_def)

lemma init_without_instance:
  "AvroProducer_init new_client new_transport config dks dvs None =
     (case new_client (schema_registry_conf config) of
        Inl e \<Rightarrow> Inl e
      | Inr reg \<Rightarrow>
          (case new_transport (transport_conf config) of
             Inl e \<Rightarrow> Inl e
           | Inr t \<Rightarrow> Inr \<lparr> p_key_serializer = AvroSerializer_init reg dks None,
                            p_value_serializer = AvroSerializer_init reg dvs None, p_transport = t \<rparr>))"
  "AvroConsumer_init new_client new_transport config None rks rvs =
     (case new_client (schema_registry_conf config) of
        Inl e \<Rightarrow> Inl e
      | Inr reg \<Rightarrow>
          (case new_transport (transport_conf config) of
             Inl e \<Rightarrow> Inl e
           | Inr t \<Rightarrow> Inr \<lparr> c_key_serializer = AvroSerializer_init reg None rks,
                            c_value_serializer = AvroSerializer_init reg None rvs, c_transport = t \<rparr>))"
  by (simp_all add: AvroProducer_init_def AvroConsumer_init_def resolve_registry_def Let_def split: sum.splits)

lemma explicit_registry_without_url:
  assumes "dict_get (schema_registry_conf config) ''url'' VNone = VNone"
  shows "AvroProducer_init new_client new_transport config dks dvs (Some r) =
       (case new_transport (transport_conf config) of
          Inl e \<Rightarrow> Inl e
        | Inr t \<Rightarrow> Inr \<lparr> p_key_serializer = AvroSerializer_init r dks None,
                         p_value_serializer = AvroSerializer_init r dvs None, p_transport = t \<rparr>)"
    and "AvroConsumer_init new_client new_transport config (Some r) rks rvs =
       (case new_transport (transport_conf config) of
          Inl e \<Rightarrow> Inl e
        | Inr t \<Rightarrow> Inr \<lparr> c_key_serializer = AvroSerializer_init r None rks,
                         c_value_serializer = AvroSerializer_init r None rvs, c_transport = t \<rparr>)"
  using assms
  by (simp_all add: AvroProducer_init_def AvroConsumer_init_def resolve_registry_def Let_def)

lemma regular_key_in_sr_conf:
  assumes "distinct (map fst config)"
    and "map_of config (''schema.registry.'' @ name) = Some v"
    and "str_replace name ''schema.registry.'' '''' = name"
    and "\<forall>k \<in> fst ` set config. startswith k ''schema.registry'' \<and>
        str_replace k ''schema.registry.'' '''' = name \<longrightarrow> k = ''schema.registry.'' @ name"
    and "name \<notin> {''sasl.mechanisms'', ''sasl.username'', ''sasl.password''} \<or>
       dict_get (schema_registry_conf config) ''basic.auth.credentials.source'' VNone \<noteq> VStr ''SASL_INHERIT''"
  shows "map_of (schema_registry_conf config) name = Some v"
proof -
  have base: "map_of (dict_of_items
            (map (\<lambda>(key, val). (str_replace key ''schema.registry.'' '''', val))
               (filter (\<lambda>(key, val). startswith key ''schema.registry'') config))) name = Some v"
    using assms(1-4) by (rule regular_key_kept)
  show ?thesis
  proof (cases "dict_get (schema_registry_conf config) ''basic.auth.credentials.source'' VNone = VStr ''SASL_INHERIT''")
    case True
    then have "name \<noteq> ''sasl.mechanisms''" "name \<noteq> ''sasl.username''" "name \<noteq> ''sasl.password''"
      using assms(5) by blast+
    then show ?thesis
      using base True by (simp only: sasl_block if_True fun_upd_other simp_thms)
  next
    case False
    then show ?thesis
      using base by (simp only: sasl_block if_False simp_thms)
  qed
qed

text \<open>The two configurations the example gives.\<close>

lemma demo_sr_conf:
  "schema_registry_conf demo_config =
     [(''url'', VStr ''http://registry:8081''),
      (''basic.auth.credentials.source'', VStr ''SASL_INHERIT''),
      (''sasl.mechanisms'', VStr ''''),
      (''sasl.username'', VStr ''alice''),
      (''sasl.password'', VStr ''secret'')]"
  by (simp add: schema_registry_conf_def demo_config_def dict_of_items_def dict_setitem_def
      dict_get_def startswith_def Let_def)

lemma demo_transport_conf:
  "transport_conf demo_config =
     [(''bootstrap.servers'', VStr ''broker:9092''),
      (''sasl.username'', VStr ''alice''),
      (''sasl.password'', VStr ''secret'')]"
  by (simp add: transport_conf_def demo_config_def dict_of_items_def dict_setitem_def startswith_def)


lemma demo_no_url_sr_conf:
  "schema_registry_conf demo_config_no_url =
     [(''basic.auth.credentials.source'', VStr ''SASL_INHERIT''),
      (''sasl.mechanisms'', VStr ''''),
      (''sasl.username'', VStr ''alice''),
      (''sasl.password'', VStr '''')]"
  by (simp add: schema_registry_conf_def demo_config_no_url_def dict_of_items_def dict_setitem_def
      dict_get_def startswith_def Let_def)

lemma demo_no_url_transport_conf:
  "transport_conf demo_config_no_url =
     [(''bootstrap.servers'', VStr ''broker:9092''), (''sasl.username'', VStr ''alice'')]"
  by (simp add: transport_conf_def demo_config_no_url_def dict_of_items_def dict_setitem_def startswith_def)


text \<open>
  C9, as the code has it. For a configuration dict, in both constructors: when the entry
  \<^verbatim>\<open>schema.registry.basic.auth.credentials.source\<close> is \<^verbatim>\<open>'SASL_INHERIT'\<close> and no other key
  that starts with \<^verbatim>\<open>schema.registry\<close> is renamed to \<^verbatim>\<open>basic.auth.credentials.source\<close>, the
  registry configuration holds \<^verbatim>\<open>sasl.mechanisms\<close>, \<^verbatim>\<open>sasl.username\<close> and \<^verbatim>\<open>sasl.password\<close> with
  the values of the configuration, the empty string where it has none. With no registry
  instance passed, the registry client is built with that configuration. With an instance
  passed, the instance is used as it is and gets none of it; or, when the registry
  configuration has a \<^verbatim>\<open>url\<close> that is not \<^verbatim>\<open>None\<close>, \<^verbatim>\<open>ValueError\<close> is raised.
\<close>

theorem sasl_inherit_copied:
  assumes dist: "distinct (map fst config)"
    and src: "map_of config ''schema.registry.basic.auth.credentials.source'' = Some (VStr ''SASL_INHERIT'')"
    and unique: "\<forall>k \<in> fst ` set config. startswith k ''schema.registry'' \<and>
        str_replace k ''schema.registry.'' '''' = ''basic.auth.credentials.source'' \<longrightarrow>
        k = ''schema.registry.basic.auth.credentials.source''"
  shows "map_of (schema_registry_conf config) ''sasl.mechanisms'' = Some (dict_get config ''sasl.mechanisms'' (VStr '''')) \<and>
     map_of (schema_registry_conf config) ''sasl.username'' = Some (dict_get config ''sasl.username'' (VStr '''')) \<and>
     map_of (schema_registry_conf config) ''sasl.password'' = Some (dict_get config ''sasl.password'' (VStr '''')) \<and>
     AvroProducer_init new_client new_transport config dks dvs None =
       (case new_client (schema_registry_conf config) of
          Inl e \<Rightarrow> Inl e
        | Inr reg \<Rightarrow>
            (case new_transport (transport_conf config) of
               Inl e \<Rightarrow> Inl e
             | Inr t \<Rightarrow> Inr \<lparr> p_key_serializer = AvroSerializer_init reg dks None,
                              p_value_serializer = AvroSerializer_init reg dvs None, p_transport = t \<rparr>)) \<and>
     AvroConsumer_init new_client new_transport config None rks rvs =
       (case new_client (schema_registry_conf config) of
          Inl e \<Rightarrow> Inl e
        | Inr reg \<Rightarrow>
            (case new_transport (transport_conf config) of
               Inl e \<Rightarrow> Inl e
             | Inr t \<Rightarrow> Inr \<lparr> c_key_serializer = AvroSerializer_init reg None rks,
                              c_value_serializer = AvroSerializer_init reg None rvs, c_transport = t \<rparr>)) \<and>
     (dict_get (schema_registry_conf config) ''url'' VNone = VNone \<longrightarrow>
        AvroProducer_init new_client new_transport config dks dvs (Some r) =
          (case new_transport (transport_conf config) of
             Inl e \<Rightarrow> Inl e
           | Inr t \<Rightarrow> Inr \<lparr> p_key_serializer = AvroSerializer_init r dks None,
                            p_value_serializer = AvroSerializer_init r dvs None, p_transport = t \<rparr>) \<and>
        AvroConsumer_init new_client new_transport config (Some r) rks rvs =
          (case new_transport (transport_conf config) of
             Inl e \<Rightarrow> Inl e
           | Inr t \<Rightarrow> Inr \<lparr> c_key_serializer = AvroSerializer_init r None rks,
                            c_value_serializer = AvroSerializer_init r None rvs, c_transport = t \<rparr>)) \<and>
     (dict_get (schema_registry_conf config) ''url'' VNone \<noteq> VNone \<longrightarrow>
        AvroProducer_init new_client new_transport config dks dvs (Some r) =
          Inl (ValueError ''Cannot pass schema_registry along with schema.registry.url config'') \<and>
        AvroConsumer_init new_client new_transport config (Some r) rks rvs =
          Inl (ValueError ''Cannot pass schema_registry along with schema.registry.url config''))"
proof -
  have p: "map_of config (''schema.registry.'' @ ''basic.auth.credentials.source'') = Some (VStr ''SASL_INHERIT'')"
    using src by simp
  have g: "str_replace ''basic.auth.credentials.source'' ''schema.registry.'' '''' = ''basic.auth.credentials.source''"
    by simp
  have q: "\<forall>k \<in> fst ` set config. startswith k ''schema.registry'' \<and>
        str_replace k ''schema.registry.'' '''' = ''basic.auth.credentials.source'' \<longrightarrow>
        k = ''schema.registry.'' @ ''basic.auth.credentials.source''"
    using unique by simp
  have n: "''basic.auth.credentials.source'' \<notin> {''sasl.mechanisms'', ''sasl.username'', ''sasl.password''} \<or>
       dict_get (schema_registry_conf config) ''basic.auth.credentials.source'' VNone \<noteq> VStr ''SASL_INHERIT''"
    by simp
  have "map_of (schema_registry_conf config) ''basic.auth.credentials.source'' = Some (VStr ''SASL_INHERIT'')"
    using dist p g q n by (rule regular_key_in_sr_conf)
  then have cond: "dict_get (schema_registry_conf config) ''basic.auth.credentials.source'' VNone = VStr ''SASL_INHERIT''"
    by (simp add: dict_get_def)
  have three: "map_of (schema_registry_conf config) ''sasl.mechanisms'' = Some (dict_get config ''sasl.mechanisms'' (VStr ''''))"
    "map_of (schema_registry_conf config) ''sasl.username'' = Some (dict_get config ''sasl.username'' (VStr ''''))"
    "map_of (schema_registry_conf config) ''sasl.password'' = Some (dict_get config ''sasl.password'' (VStr ''''))"
    using cond by (simp_all add: sasl_block)
  show ?thesis
    using three
    by (intro conjI impI init_without_instance explicit_registry_without_url explicit_registry_with_url)
qed

theorem sasl_inherit_copied_witness:
  "map_of (schema_registry_conf demo_config) ''sasl.mechanisms'' = Some (VStr '''') \<and>
   map_of (schema_registry_conf demo_config) ''sasl.username'' = Some (VStr ''alice'') \<and>
   map_of (schema_registry_conf demo_config) ''sasl.password'' = Some (VStr ''secret'') \<and>
   (AvroProducer_init demo_new_client demo_new_transport demo_config None None None
      :: py_exc + (py_dict, nat, nat, py_dict) AvroProducer) =
     Inr \<lparr> p_key_serializer = AvroSerializer_init (schema_registry_conf demo_config) None None,
           p_value_serializer = AvroSerializer_init (schema_registry_conf demo_config) None None,
           p_transport = transport_conf demo_config \<rparr> \<and>
   (AvroConsumer_init demo_new_client demo_new_transport demo_config None None None
      :: py_exc + (py_dict, nat, nat, py_dict) AvroConsumer) =
     Inr \<lparr> c_key_serializer = AvroSerializer_init (schema_registry_conf demo_config) None None,
           c_value_serializer = AvroSerializer_init (schema_registry_conf demo_config) None None,
           c_transport = transport_conf demo_config \<rparr> \<and>
   (AvroProducer_init demo_new_client demo_new_transport demo_config None None (Some [])
      :: py_exc + (py_dict, nat, nat, py_dict) AvroProducer) =
     Inl (ValueError ''Cannot pass schema_registry along with schema.registry.url config'') \<and>
   (AvroConsumer_init demo_new_client demo_new_transport demo_config_no_url (Some []) None None
      :: py_exc + (py_dict, nat, nat, py_dict) AvroConsumer) =
     Inr \<lparr> c_key_serializer = AvroSerializer_init [] None None,
           c_value_serializer = AvroSerializer_init [] None None,
           c_transport = transport_conf demo_config_no_url \<rparr>"
proof -
  have d: "distinct (map fst demo_config)"
    by (simp add: demo_config_def)
  have s: "map_of demo_config ''schema.registry.basic.auth.credentials.source'' = Some (VStr ''SASL_INHERIT'')"
    by (simp add: demo_config_def)
  have u: "\<forall>k \<in> fst ` set demo_config. startswith k ''schema.registry'' \<and>
        str_replace k ''schema.registry.'' '''' = ''basic.auth.credentials.source'' \<longrightarrow>
        k = ''schema.registry.basic.auth.credentials.source''"
    by (simp add: demo_config_def startswith_def)
  have d2: "distinct (map fst demo_config_no_url)"
    by (simp add: demo_config_no_url_def)
  have s2: "map_of demo_config_no_url ''schema.registry.basic.auth.credentials.source'' = Some (VStr ''SASL_INHERIT'')"
    by (simp add: demo_config_no_url_def)
  have u2: "\<forall>k \<in> fst ` set demo_config_no_url. startswith k ''schema.registry'' \<and>
        str_replace k ''schema.registry.'' '''' = ''basic.auth.credentials.source'' \<longrightarrow>
        k = ''schema.registry.basic.auth.credentials.source''"
    by (simp add: demo_config_no_url_def startswith_def)
  note t = sasl_inherit_copied [OF d s u]
  note t2 = sasl_inherit_copied [OF d2 s2 u2]
  have g: "dict_get demo_config ''sasl.mechanisms'' (VStr '''') = VStr ''''"
    "dict_get demo_config ''sasl.username'' (VStr '''') = VStr ''alice''"
    "dict_get demo_config ''sasl.password'' (VStr '''') = VStr ''secret''"
    by (simp_all add: demo_config_def dict_get_def)
  have url: "dict_get (schema_registry_conf demo_config) ''url'' VNone \<noteq> VNone"
    by (simp add: demo_sr_conf dict_get_def)
  have nourl: "dict_get (schema_registry_conf demo_config_no_url) ''url'' VNone = VNone"
    by (simp add: demo_no_url_sr_conf dict_get_def)
  have m: "map_of (schema_registry_conf demo_config) ''sasl.mechanisms'' = Some (VStr '''')"
    "map_of (schema_registry_conf demo_config) ''sasl.username'' = Some (VStr ''alice'')"
    "map_of (schema_registry_conf demo_config) ''sasl.password'' = Some (VStr ''secret'')"
    using t [THEN conjunct1] t [THEN conjunct2, THEN conjunct1]
      t [THEN conjunct2, THEN conjunct2, THEN conjunct1] g
    by simp_all
  have a: "(AvroProducer_init demo_new_client demo_new_transport demo_config None None None
      :: py_exc + (py_dict, nat, nat, py_dict) AvroProducer) =
     (case demo_new_client (schema_registry_conf demo_config) of
          Inl e \<Rightarrow> Inl e
        | Inr reg \<Rightarrow>
            (case demo_new_transport (transport_conf demo_config) of
               Inl e \<Rightarrow> Inl e
             | Inr t \<Rightarrow> Inr \<lparr> p_key_serializer = AvroSerializer_init reg None None,
                              p_value_serializer = AvroSerializer_init reg None None, p_transport = t \<rparr>))"
    by (rule t [THEN conjunct2, THEN conjunct2, THEN conjunct2, THEN conjunct1])
  have b: "(AvroConsumer_init demo_new_client demo_new_transport demo_config None None None
      :: py_exc + (py_dict, nat, nat, py_dict) AvroConsumer) =
     (case demo_new_client (schema_registry_conf demo_config) of
          Inl e \<Rightarrow> Inl e
        | Inr reg \<Rightarrow>
            (case demo_new_transport (transport_conf demo_config) of
               Inl e \<Rightarrow> Inl e
             | Inr t \<Rightarrow> Inr \<lparr> c_key_serializer = AvroSerializer_init reg None None,
                              c_value_serializer = AvroSerializer_init reg None None, c_transport = t \<rparr>))"
    by (rule t [THEN conjunct2, THEN conjunct2, THEN conjunct2, THEN conjunct2, THEN conjunct1])
  have c: "(AvroProducer_init demo_new_client demo_new_transport demo_config None None (Some [])
      :: py_exc + (py_dict, nat, nat, py_dict) AvroProducer) =
     Inl (ValueError ''Cannot pass schema_registry along with schema.registry.url config'')"
    using url
    by (rule t [THEN conjunct2, THEN conjunct2, THEN conjunct2, THEN conjunct2, THEN conjunct2,
          THEN conjunct2, THEN mp, THEN conjunct1])
  have e: "(AvroConsumer_init demo_new_client demo_new_transport demo_config_no_url (Some []) None None
      :: py_exc + (py_dict, nat, nat, py_dict) AvroConsumer) =
     (case demo_new_transport (transport_conf demo_config_no_url) of
             Inl e \<Rightarrow> Inl e
           | Inr t \<Rightarrow> Inr \<lparr> c_key_serializer = AvroSerializer_init [] None None,
                            c_value_serializer = AvroSerializer_init [] None None, c_transport = t \<rparr>)"
    using nourl
    by (rule t2 [THEN conjunct2, THEN conjunct2, THEN conjunct2, THEN conjunct2, THEN conjunct2,
          THEN conjunct1, THEN mp, THEN conjunct2])
  show ?thesis
    using m a b c e by (simp add: demo_new_client_def demo_new_transport_def)
qed

text \<open>
  The claim as stated fails in two places. A second key that the prefix removal renames to
  \<^verbatim>\<open>basic.auth.credentials.source\<close>, coming later in the dict, takes the place of the first:
  the caller's entry is \<^verbatim>\<open>'SASL_INHERIT'\<close> and nothing is copied. And with a registry instance
  passed, the instance is the client: the configuration that received the three entries is
  not handed to it.
\<close>

theorem sasl_inherit_shadowed_counterexample:
  "distinct (map fst demo_config_shadowed) \<and>
   map_of demo_config_shadowed ''schema.registry.basic.auth.credentials.source'' = Some (VStr ''SASL_INHERIT'') \<and>
   schema_registry_conf demo_config_shadowed = [(''basic.auth.credentials.source'', VStr ''USER_INFO'')] \<and>
   map_of (schema_registry_conf demo_config_shadowed) ''sasl.username'' = None \<and>
   (AvroProducer_init demo_new_client demo_new_transport demo_config_shadowed None None None
      :: py_exc + (py_dict, nat, nat, py_dict) AvroProducer) =
     Inr \<lparr> p_key_serializer = AvroSerializer_init [(''basic.auth.credentials.source'', VStr ''USER_INFO'')] None None,
           p_value_serializer = AvroSerializer_init [(''basic.auth.credentials.source'', VStr ''USER_INFO'')] None None,
           p_transport = [(''sasl.username'', VStr ''alice'')] \<rparr> \<and>
   map_of demo_config_no_url ''schema.registry.basic.auth.credentials.source'' = Some (VStr ''SASL_INHERIT'') \<and>
   (AvroProducer_init demo_new_client demo_new_transport demo_config_no_url None None (Some [])
      :: py_exc + (py_dict, nat, nat, py_dict) AvroProducer) =
     Inr \<lparr> p_key_serializer = AvroSerializer_init [] None None,
           p_value_serializer = AvroSerializer_init [] None None,
           p_transport = [(''bootstrap.servers'', VStr ''broker:9092''), (''sasl.username'', VStr ''alice'')] \<rparr>"
  by (simp add: schema_registry_conf_def transport_conf_def dict_of_items_def dict_setitem_def
      dict_get_def startswith_def Let_def AvroProducer_init_def
      resolve_registry_def demo_new_client_def demo_new_transport_def
      demo_config_shadowed_def demo_config_no_url_def)

text \<open>
  C10, as the code has it. For a configuration dict, in both constructors: with a registry
  instance passed and an entry \<^verbatim>\<open>url\<close> in the registry configuration whose value is not
  \<^verbatim>\<open>None\<close>, \<^verbatim>\<open>ValueError\<close> is raised; with an instance passed and no such entry, the instance is
  used. With no instance passed, the registry client is built with the registry
  configuration. Whenever nothing is raised, with or without an instance, the transport
  client is built with the entries whose key does not start with \<^verbatim>\<open>schema.registry\<close>, in
  their order and with their values. In the registry configuration a key
  \<^verbatim>\<open>schema.registry.\<close>\<open>name\<close> appears as \<open>name\<close> with its value (for a \<open>name\<close> free of
  \<^verbatim>\<open>schema.registry.\<close> that no other selected key maps to, and that the \<^verbatim>\<open>SASL_INHERIT\<close> block
  does not set); and every key of it comes from a selected key or is one of the three
  \<^verbatim>\<open>sasl.*\<close> names.
\<close>

theorem constructor_routing:
  assumes dist: "distinct (map fst config)"
  shows
  "(dict_get (schema_registry_conf config) ''url'' VNone \<noteq> VNone \<longrightarrow>
      AvroProducer_init new_client new_transport config dks dvs (Some r) =
        Inl (ValueError ''Cannot pass schema_registry along with schema.registry.url config'') \<and>
      AvroConsumer_init new_client new_transport config (Some r) rks rvs =
        Inl (ValueError ''Cannot pass schema_registry along with schema.registry.url config'')) \<and>
   (dict_get (schema_registry_conf config) ''url'' VNone = VNone \<longrightarrow>
      AvroProducer_init new_client new_transport config dks dvs (Some r) =
        (case new_transport (filter (\<lambda>(key, val). \<not> startswith key ''schema.registry'') config) of
           Inl e \<Rightarrow> Inl e
         | Inr t \<Rightarrow> Inr \<lparr> p_key_serializer = AvroSerializer_init r dks None,
                          p_value_serializer = AvroSerializer_init r dvs None, p_transport = t \<rparr>) \<and>
      AvroConsumer_init new_client new_transport config (Some r) rks rvs =
        (case new_transport (filter (\<lambda>(key, val). \<not> startswith key ''schema.registry'') config) of
           Inl e \<Rightarrow> Inl e
         | Inr t \<Rightarrow> Inr \<lparr> c_key_serializer = AvroSerializer_init r None rks,
                          c_value_serializer = AvroSerializer_init r None rvs, c_transport = t \<rparr>)) \<and>
   AvroProducer_init new_client new_transport config dks dvs None =
     (case new_client (schema_registry_conf config) of
        Inl e \<Rightarrow> Inl e
      | Inr reg \<Rightarrow>
          (case new_transport (filter (\<lambda>(key, val). \<not> startswith key ''schema.registry'') config) of
             Inl e \<Rightarrow> Inl e
           | Inr t \<Rightarrow> Inr \<lparr> p_key_serializer = AvroSerializer_init reg dks None,
                            p_value_serializer = AvroSerializer_init reg dvs None, p_transport = t \<rparr>)) \<and>
   AvroConsumer_init new_client new_transport config None rks rvs =
     (case new_client (schema_registry_conf config) of
        Inl e \<Rightarrow> Inl e
      | Inr reg \<Rightarrow>
          (case new_transport (filter (\<lambda>(key, val). \<not> startswith key ''schema.registry'') config) of
             Inl e \<Rightarrow> Inl e
           | Inr t \<Rightarrow> Inr \<lparr> c_key_serializer = AvroSerializer_init reg None rks,
                            c_value_serializer = AvroSerializer_init reg None rvs, c_transport = t \<rparr>)) \<and>
   (map_of config (''schema.registry.'' @ name) = Some v \<and>
    str_replace name ''schema.registry.'' '''' = name \<and>
    (\<forall>k \<in> fst ` set config. startswith k ''schema.registry'' \<and>
        str_replace k ''schema.registry.'' '''' = name \<longrightarrow> k = ''schema.registry.'' @ name) \<and>
    (name \<notin> {''sasl.mechanisms'', ''sasl.username'', ''sasl.password''} \<or>
       dict_get (schema_registry_conf config) ''basic.auth.credentials.source'' VNone \<noteq> VStr ''SASL_INHERIT'') \<longrightarrow>
      map_of (schema_registry_conf config) name = Some v) \<and>
   fst ` set (schema_registry_conf config) \<subseteq>
     (\<lambda>k. str_replace k ''schema.registry.'' '''') ` {k \<in> fst ` set config. startswith k ''schema.registry''} \<union>
     {''sasl.mechanisms'', ''sasl.username'', ''sasl.password''}"
proof (intro conjI impI)
  assume "dict_get (schema_registry_conf config) ''url'' VNone \<noteq> VNone"
  then show "AvroProducer_init new_client new_transport config dks dvs (Some r) =
        Inl (ValueError ''Cannot pass schema_registry along with schema.registry.url config'')"
    and "AvroConsumer_init new_client new_transport config (Some r) rks rvs =
        Inl (ValueError ''Cannot pass schema_registry along with schema.registry.url config'')"
    by (rule explicit_registry_with_url)+
next
  assume "dict_get (schema_registry_conf config) ''url'' VNone = VNone"
  then show "AvroProducer_init new_client new_transport config dks dvs (Some r) =
        (case new_transport (filter (\<lambda>(key, val). \<not> startswith key ''schema.registry'') config) of
           Inl e \<Rightarrow> Inl e
         | Inr t \<Rightarrow> Inr \<lparr> p_key_serializer = AvroSerializer_init r dks None,
                          p_value_serializer = AvroSerializer_init r dvs None, p_transport = t \<rparr>)"
    and "AvroConsumer_init new_client new_transport config (Some r) rks rvs =
        (case new_transport (filter (\<lambda>(key, val). \<not> startswith key ''schema.registry'') config) of
           Inl e \<Rightarrow> Inl e
         | Inr t \<Rightarrow> Inr \<lparr> c_key_serializer = AvroSerializer_init r None rks,
                          c_value_serializer = AvroSerializer_init r None rvs, c_transport = t \<rparr>)"
    by (simp_all only: explicit_registry_without_url transport_conf_filter [OF dist])
next
  show "AvroProducer_init new_client new_transport config dks dvs None =
     (case new_client (schema_registry_conf config) of
        Inl e \<Rightarrow> Inl e
      | Inr reg \<Rightarrow>
          (case new_transport (filter (\<lambda>(key, val). \<not> startswith key ''schema.registry'') config) of
             Inl e \<Rightarrow> Inl e
           | Inr t \<Rightarrow> Inr \<lparr> p_key_serializer = AvroSerializer_init reg dks None,
                            p_value_serializer = AvroSerializer_init reg dvs None, p_transport = t \<rparr>))"
    by (simp only: init_without_instance transport_conf_filter [OF dist])
next
  show "AvroConsumer_init new_client new_transport config None rks rvs =
     (case new_client (schema_registry_conf config) of
        Inl e \<Rightarrow> Inl e
      | Inr reg \<Rightarrow>
          (case new_transport (filter (\<lambda>(key, val). \<not> startswith key ''schema.registry'') config) of
             Inl e \<Rightarrow> Inl e
           | Inr t \<Rightarrow> Inr \<lparr> c_key_serializer = AvroSerializer_init reg None rks,
                            c_value_serializer = AvroSerializer_init reg None rvs, c_transport = t \<rparr>))"
    by (simp only: init_without_instance transport_conf_filter [OF dist])
next
  assume a: "map_of config (''schema.registry.'' @ name) = Some v \<and>
    str_replace name ''schema.registry.'' '''' = name \<and>
    (\<forall>k \<in> fst ` set config. startswith k ''schema.registry'' \<and>
        str_replace k ''schema.registry.'' '''' = name \<longrightarrow> k = ''schema.registry.'' @ name) \<and>
    (name \<notin> {''sasl.mechanisms'', ''sasl.username'', ''sasl.password''} \<or>
       dict_get (schema_registry_conf config) ''basic.auth.credentials.source'' VNone \<noteq> VStr ''SASL_INHERIT'')"
  show "map_of (schema_registry_conf config) name = Some v"
    by (rule regular_key_in_sr_conf [OF dist a [THEN conjunct1] a [THEN conjunct2, THEN conjunct1]
          a [THEN conjunct2, THEN conjunct2, THEN conjunct1]
          a [THEN conjunct2, THEN conjunct2, THEN conjunct2]])
next
  show "fst ` set (schema_registry_conf config) \<subseteq>
     (\<lambda>k. str_replace k ''schema.registry.'' '''') ` {k \<in> fst ` set config. startswith k ''schema.registry''} \<union>
     {''sasl.mechanisms'', ''sasl.username'', ''sasl.password''}"
    by (rule sr_conf_keys)
qed

theorem constructor_routing_witness:
  "(AvroProducer_init demo_new_client demo_new_transport demo_config None None (Some [])
      :: py_exc + (py_dict, nat, nat, py_dict) AvroProducer) =
     Inl (ValueError ''Cannot pass schema_registry along with schema.registry.url config'') \<and>
   (AvroConsumer_init demo_new_client demo_new_transport demo_config (Some []) None None
      :: py_exc + (py_dict, nat, nat, py_dict) AvroConsumer) =
     Inl (ValueError ''Cannot pass schema_registry along with schema.registry.url config'') \<and>
   (AvroProducer_init demo_new_client demo_new_transport demo_config None None None
      :: py_exc + (py_dict, nat, nat, py_dict) AvroProducer) =
     Inr \<lparr> p_key_serializer = AvroSerializer_init (schema_registry_conf demo_config) None None,
           p_value_serializer = AvroSerializer_init (schema_registry_conf demo_config) None None,
           p_transport = [(''bootstrap.servers'', VStr ''broker:9092''),
                          (''sasl.username'', VStr ''alice''), (''sasl.password'', VStr ''secret'')] \<rparr> \<and>
   map_of (schema_registry_conf demo_config) ''url'' = Some (VStr ''http://registry:8081'') \<and>
   (AvroProducer_init demo_new_client demo_new_transport demo_config_no_url None None (Some [])
      :: py_exc + (py_dict, nat, nat, py_dict) AvroProducer) =
     Inr \<lparr> p_key_serializer = AvroSerializer_init [] None None,
           p_value_serializer = AvroSerializer_init [] None None,
           p_transport = [(''bootstrap.servers'', VStr ''broker:9092''), (''sasl.username'', VStr ''alice'')] \<rparr>"
proof -
  have d: "distinct (map fst demo_config)"
    by (simp add: demo_config_def)
  have u: "dict_get (schema_registry_conf demo_config) ''url'' VNone \<noteq> VNone"
    by (simp add: demo_sr_conf dict_get_def)
  have f: "filter (\<lambda>(key, val). \<not> startswith key ''schema.registry'') demo_config =
      [(''bootstrap.servers'', VStr ''broker:9092''),
       (''sasl.username'', VStr ''alice''), (''sasl.password'', VStr ''secret'')]"
    by (simp add: demo_config_def startswith_def)
  have p: "map_of demo_config (''schema.registry.'' @ ''url'') = Some (VStr ''http://registry:8081'')"
    by (simp add: demo_config_def)
  have r: "str_replace ''url'' ''schema.registry.'' '''' = ''url''"
    by simp
  have q: "\<forall>k \<in> fst ` set demo_config. startswith k ''schema.registry'' \<and>
        str_replace k ''schema.registry.'' '''' = ''url'' \<longrightarrow> k = ''schema.registry.'' @ ''url''"
    by (simp add: demo_config_def startswith_def)
  have n: "''url'' \<notin> {''sasl.mechanisms'', ''sasl.username'', ''sasl.password''}"
    by simp
  note cr = constructor_routing [OF d]
  have a: "(AvroProducer_init demo_new_client demo_new_transport demo_config None None (Some [])
      :: py_exc + (py_dict, nat, nat, py_dict) AvroProducer) =
     Inl (ValueError ''Cannot pass schema_registry along with schema.registry.url config'')"
    using u by (rule cr [THEN conjunct1, THEN mp, THEN conjunct1])
  have b: "(AvroConsumer_init demo_new_client demo_new_transport demo_config (Some []) None None
      :: py_exc + (py_dict, nat, nat, py_dict) AvroConsumer) =
     Inl (ValueError ''Cannot pass schema_registry along with schema.registry.url config'')"
    using u by (rule cr [THEN conjunct1, THEN mp, THEN conjunct2])
  have c: "(AvroProducer_init demo_new_client demo_new_transport demo_config None None None
      :: py_exc + (py_dict, nat, nat, py_dict) AvroProducer) =
     (case demo_new_client (schema_registry_conf demo_config) of
        Inl e \<Rightarrow> Inl e
      | Inr reg \<Rightarrow>
          (case demo_new_transport (filter (\<lambda>(key, val). \<not> startswith key ''schema.registry'') demo_config) of
             Inl e \<Rightarrow> Inl e
           | Inr t \<Rightarrow> Inr \<lparr> p_key_serializer = AvroSerializer_init reg None None,
                            p_value_serializer = AvroSerializer_init reg None None, p_transport = t \<rparr>))"
    by (rule cr [THEN conjunct2, THEN conjunct2, THEN conjunct1])
  have e: "map_of (schema_registry_conf demo_config) ''url'' = Some (VStr ''http://registry:8081'')"
    using p r q n
    by (intro cr [THEN conjunct2, THEN conjunct2, THEN conjunct2, THEN conjunct2, THEN conjunct1, THEN mp] conjI disjI1)
  have d2: "distinct (map fst demo_config_no_url)"
    by (simp add: demo_config_no_url_def)
  have nourl: "dict_get (schema_registry_conf demo_config_no_url) ''url'' VNone = VNone"
    by (simp add: demo_no_url_sr_conf dict_get_def)
  have f2: "filter (\<lambda>(key, val). \<not> startswith key ''schema.registry'') demo_config_no_url =
      [(''bootstrap.servers'', VStr ''broker:9092''), (''sasl.username'', VStr ''alice'')]"
    by (simp add: demo_config_no_url_def startswith_def)
  have g: "(AvroProducer_init demo_new_client demo_new_transport demo_config_no_url None None (Some [])
      :: py_exc + (py_dict, nat, nat, py_dict) AvroProducer) =
     (case demo_new_transport (filter (\<lambda>(key, val). \<not> startswith key ''schema.registry'') demo_config_no_url) of
        Inl e \<Rightarrow> Inl e
      | Inr t \<Rightarrow> Inr \<lparr> p_key_serializer = AvroSerializer_init [] None None,
                       p_value_serializer = AvroSerializer_init [] None None, p_transport = t \<rparr>)"
    using nourl
    by (rule constructor_routing [OF d2, THEN conjunct2, THEN conjunct1, THEN mp, THEN conjunct1])
  show ?thesis
    using a b c e f g f2 by (simp add: demo_new_client_def demo_new_transport_def)
qed

text \<open>
  The claim as stated fails in two places. A \<^verbatim>\<open>url\<close> entry that is \<^verbatim>\<open>None\<close> together with
  a registry instance raises nothing: the guard is \<^verbatim>\<open>sr_conf.get("url", None) is not None\<close>.
  And a key that starts with \<^verbatim>\<open>schema.registry\<close> without the dot is selected but keeps its
  whole name, since the removal looks for \<^verbatim>\<open>schema.registry.\<close>.
\<close>

theorem url_none_counterexample:
  "map_of (schema_registry_conf [(''schema.registry.url'', VNone)]) ''url'' = Some VNone \<and>
   (AvroProducer_init demo_new_client demo_new_transport [(''schema.registry.url'', VNone)]
      None None (Some [(''url'', VStr ''http://registry:8081'')])
      :: py_exc + (py_dict, nat, nat, py_dict) AvroProducer) =
     Inr \<lparr> p_key_serializer = AvroSerializer_init [(''url'', VStr ''http://registry:8081'')] None None,
           p_value_serializer = AvroSerializer_init [(''url'', VStr ''http://registry:8081'')] None None,
           p_transport = [] \<rparr> \<and>
   (AvroConsumer_init demo_new_client demo_new_transport [(''schema.registry.url'', VNone)]
      (Some [(''url'', VStr ''http://registry:8081'')]) None None
      :: py_exc + (py_dict, nat, nat, py_dict) AvroConsumer) =
     Inr \<lparr> c_key_serializer = AvroSerializer_init [(''url'', VStr ''http://registry:8081'')] None None,
           c_value_serializer = AvroSerializer_init [(''url'', VStr ''http://registry:8081'')] None None,
           c_transport = [] \<rparr> \<and>
   startswith ''schema.registryurl'' ''schema.registry'' \<and>
   schema_registry_conf [(''schema.registryurl'', VStr ''x'')] = [(''schema.registryurl'', VStr ''x'')]"
  by (simp add: schema_registry_conf_def transport_conf_def dict_of_items_def dict_setitem_def
      dict_get_def startswith_def Let_def AvroProducer_init_def AvroConsumer_init_def
      resolve_registry_def demo_new_client_def demo_new_transport_def)

end
